theory Spec2Isabelle
  imports Main "HOL-Library.Multiset" "HOL-Library.Char_ord" "HOL-Library.List_Lexorder"
begin

section \<open>Go values used by the controllers\<close>

text \<open>
  A Go \<open>error\<close> value.  The controllers look at an error in two ways only: they
  print it (\<open>err.Error()\<close>) and, in \<open>UpdateUser\<close>, they test it with
  \<open>errors.Is(err, gorm.ErrRecordNotFound)\<close>.  \<open>nil\<close> is \<open>None\<close> of
  \<open>error option\<close>.
\<close>

datatype error = GoError (is_ErrRecordNotFound: bool) (Error: string)

text \<open>The constants of \<open>net/http\<close> that the controllers pass to \<open>c.JSON\<close>.\<close>

abbreviation StatusOK :: nat where "StatusOK \<equiv> 200"
abbreviation StatusCreated :: nat where "StatusCreated \<equiv> 201"
abbreviation StatusBadRequest :: nat where "StatusBadRequest \<equiv> 400"
abbreviation StatusUnauthorized :: nat where "StatusUnauthorized \<equiv> 401"
abbreviation StatusForbidden :: nat where "StatusForbidden \<equiv> 403"
abbreviation StatusNotFound :: nat where "StatusNotFound \<equiv> 404"
abbreviation StatusConflict :: nat where "StatusConflict \<equiv> 409"
abbreviation StatusInternalServerError :: nat where "StatusInternalServerError \<equiv> 500"

subsection \<open>strconv\<close>

text \<open>
  \<open>strconv.Itoa\<close> and \<open>strconv.Atoi\<close> on Go's 64-bit \<open>int\<close>: base 10, an
  optional sign, at least one digit, nothing else; a value outside the 64-bit range
  is an error.
\<close>

fun nat_digits :: "nat \<Rightarrow> string" where
  "nat_digits n =
     (if n < 10 then [''0123456789'' ! n]
      else nat_digits (n div 10) @ [''0123456789'' ! (n mod 10)])"

declare nat_digits.simps [simp del]

definition Itoa :: "int \<Rightarrow> string" where
  "Itoa i = (if i < 0 then CHR ''-'' # nat_digits (nat (- i)) else nat_digits (nat i))"

definition digit_val :: "char \<Rightarrow> nat option" where
  "digit_val ch =
     (let n = (of_char ch :: nat) in if 48 \<le> n \<and> n \<le> 57 then Some (n - 48) else None)"

fun digits_val :: "nat \<Rightarrow> string \<Rightarrow> nat option" where
  "digits_val acc [] = Some acc"
| "digits_val acc (ch # cs) =
     (case digit_val ch of None \<Rightarrow> None | Some d \<Rightarrow> digits_val (10 * acc + d) cs)"

definition Atoi :: "string \<Rightarrow> int \<times> error option" where
  "Atoi s =
     (let (neg, ds) =
            (case s of
               ch # r \<Rightarrow>
                 if ch = CHR ''-'' then (True, r)
                 else if ch = CHR ''+'' then (False, r) else (False, s)
             | [] \<Rightarrow> (False, s))
      in if ds = [] then (0, Some (GoError False (''strconv.Atoi: parsing: invalid syntax'')))
         else case digits_val 0 ds of
                None \<Rightarrow> (0, Some (GoError False (''strconv.Atoi: parsing: invalid syntax'')))
              | Some n \<Rightarrow>
                  let v = (if neg then - int n else int n)
                  in if v < - (2 ^ 63) then
                       (- (2 ^ 63), Some (GoError False ''strconv.Atoi: parsing: value out of range''))
                     else if 2 ^ 63 \<le> v then
                       (2 ^ 63 - 1, Some (GoError False ''strconv.Atoi: parsing: value out of range''))
                     else (v, None))"

section \<open>The request, the response and the collaborators\<close>

text \<open>
  The permission ids are the constants \<open>config.PERMISSION_...\<close>.  Package \<open>config\<close>
  is not among the sources, so a permission id is kept as the name of its constant.
\<close>

datatype permission =
    PERMISSION_GET_USER_BY_ID
  | PERMISSION_GET_ALL_USERS
  | PERMISSION_SEARCH_USER_BY_ID
  | PERMISSION_SEARCH_USERS_BY_EMAIL
  | PERMISSION_UPDATE_USER_STATE
  | PERMISSION_UPDATE_USER
  | PERMISSION_CREATE_USER
  | PERMISSION_GET_APPOINTMENT_BY_ID
  | PERMISSION_GET_ALL_APPOINTMENTS
  | PERMISSION_SEARCH_APPOINTMENTS_BY_ID
  | PERMISSION_GET_ROLE_BY_ID
  | PERMISSION_CALCULATE_SUBTOTAL
  | PERMISSION_GET_USER_STATE_TYPE_BY_ID
  | PERMISSION_GET_ALL_USER_STATE_TYPES
  | PERMISSION_GET_ADDITIONAL_EXPENSE_BY_ID
  | PERMISSION_GET_ALL_ADDITIONAL_EXPENSE
  | PERMISSION_CREATE_EMPLOYEE
  | PERMISSION_SEARCH_CUSTOMERS_BY_ID

text \<open>
  What a handler reads from \<open>*gin.Context\<close>: path parameters, query parameters,
  headers (each \<open>''''\<close> when absent) and the outcome of \<open>c.ShouldBindJSON(&dto)\<close>
  for the handler's DTO type \<open>'b\<close>.
\<close>

record 'b gin_Context =
  Param :: "string \<Rightarrow> string"
  Query :: "string \<Rightarrow> string"
  GetHeader :: "string \<Rightarrow> string"
  ShouldBindJSON :: "error + 'b"

text \<open>
  The value given to \<open>c.JSON\<close>: a \<open>gin.H\<close> map literal, or a DTO / entity of type
  \<open>'a\<close>, or a slice of them (a nil slice and an empty slice are both the empty list).
  \<open>gin.H\<close> is a Go map: the list holds its entries, here in the order of the literal,
  and that order carries no meaning (\<open>encoding/json\<close> sends the keys sorted).  What is
  said of a \<open>gin.H\<close> body below is said of its set of entries.
\<close>

datatype 'a jv = JStr string | JBool bool | JVal 'a

datatype 'a body = H "(string \<times> 'a jv) list" | Object 'a | Array "'a list"

text \<open>The calls a handler makes to its collaborators, in the order it makes them.\<close>

datatype call = CallRegisterLog string | CallCheckPermission permission | CallService string

text \<open>
  The state a handler runs in: \<open>world\<close> is the persistence backend (audit table
  and entity tables), \<open>calls\<close> the collaborator calls made so far, \<open>written\<close> the
  responses written with \<open>c.JSON\<close>, \<open>panicked\<close> whether the handler dereferenced a
  nil pointer.
\<close>

record ('w, 'a) gin_state =
  world :: 'w
  calls :: "call list"
  written :: "(nat \<times> 'a body) list"
  panicked :: bool

definition init :: "'w \<Rightarrow> ('w, 'a) gin_state" where
  "init w = \<lparr>world = w, calls = [], written = [], panicked = False\<rparr>"

text \<open>
  Package \<open>utilities\<close> (\<open>LogUtil\<close>, \<open>AuthorizationUtil\<close>) and package
  \<open>services\<close> are not among the sources: they are parameters of every handler.
  \<open>LogUtil.RegisterLog(c, msg)\<close> returns an error or nil and may write to the
  backend; \<open>AuthorizationUtil.CheckPermission(c, id)\<close> returns a bool and, as the
  specification has it, has no side effect; a service method returns its Go result
  tuple and the new backend.
\<close>

type_synonym ('b, 'w) LogUtil = "'b gin_Context \<Rightarrow> string \<Rightarrow> 'w \<Rightarrow> error option \<times> 'w"

type_synonym ('b, 'w) AuthorizationUtil = "'b gin_Context \<Rightarrow> permission \<Rightarrow> 'w \<Rightarrow> bool"

record ('s, 'b, 'w) AuthController =
  Service :: 's
  Auth :: "('b, 'w) AuthorizationUtil"

record ('s, 'b, 'w) Controller = "('s, 'b, 'w) AuthController" +
  Log :: "('b, 'w) LogUtil"

definition RegisterLog ::
  "('b, 'w) LogUtil \<Rightarrow> 'b gin_Context \<Rightarrow> string \<Rightarrow> ('w, 'a) gin_state
     \<Rightarrow> error option \<times> ('w, 'a) gin_state" where
  "RegisterLog lg c msg s =
     (let (e, w) = lg c msg (world s)
      in (e, s\<lparr>world := w, calls := calls s @ [CallRegisterLog msg]\<rparr>))"

text \<open>\<open>_ = x.Log.RegisterLog(c, msg)\<close>: the result is dropped.\<close>

definition RegisterLog_ignored ::
  "('b, 'w) LogUtil \<Rightarrow> 'b gin_Context \<Rightarrow> string \<Rightarrow> ('w, 'a) gin_state \<Rightarrow> ('w, 'a) gin_state" where
  "RegisterLog_ignored lg c msg s = snd (RegisterLog lg c msg s)"

definition CheckPermission ::
  "('b, 'w) AuthorizationUtil \<Rightarrow> 'b gin_Context \<Rightarrow> permission \<Rightarrow> ('w, 'a) gin_state
     \<Rightarrow> bool \<times> ('w, 'a) gin_state" where
  "CheckPermission au c p s =
     (au c p (world s), s\<lparr>calls := calls s @ [CallCheckPermission p]\<rparr>)"

definition invoke ::
  "string \<Rightarrow> ('w \<Rightarrow> 'r \<times> 'w) \<Rightarrow> ('w, 'a) gin_state \<Rightarrow> 'r \<times> ('w, 'a) gin_state" where
  "invoke name f s =
     (let (r, w) = f (world s)
      in (r, s\<lparr>world := w, calls := calls s @ [CallService name]\<rparr>))"

definition JSON :: "nat \<Rightarrow> 'a body \<Rightarrow> ('w, 'a) gin_state \<Rightarrow> ('w, 'a) gin_state" where
  "JSON code obj s = s\<lparr>written := written s @ [(code, obj)]\<rparr>"

definition nil_dereference :: "('w, 'a) gin_state \<Rightarrow> ('w, 'a) gin_state" where
  "nil_dereference s = s\<lparr>panicked := True\<rparr>"

abbreviation error_body :: "string \<Rightarrow> 'a body" where
  "error_body msg \<equiv> H [(''error'', JStr msg)]"

section \<open>UserController (controllers/user_controller.go)\<close>

text \<open>
  \<open>models.User\<close> and the DTOs of package \<open>dtos\<close> are not among the sources; their
  fields are the ones the controller reads and writes.
\<close>

record User =
  ID :: int
  Email :: string
  Password :: string
  UserTypeID :: int
  UserStateTypeID :: int

record GetUserDTO =
  ID :: int
  Email :: string
  Password :: string
  UserTypeID :: int
  UserStateID :: int

record CreateUserDTO =
  Email :: string
  Password :: string
  UserTypeID :: int
  UserStateID :: int

record UpdateUserDTO =
  Email :: string
  Password :: string
  UserTypeID :: int
  UserStateID :: int

record request =
  UserState :: int

text \<open>
  \<open>services.UserService\<close>, as the controller calls it.  A pointer result is an
  \<open>option\<close> (\<open>None\<close> is nil).  \<open>UpdateUser\<close> receives a pointer: it returns
  the record the pointer refers to afterwards.
\<close>

record 'w UserService =
  GetUserByID :: "string \<Rightarrow> 'w \<Rightarrow> (User option \<times> error option) \<times> 'w"
  GetAllUsers :: "'w \<Rightarrow> (User list \<times> error option) \<times> 'w"
  SearchUsersByID :: "string \<Rightarrow> 'w \<Rightarrow> (User list \<times> error option) \<times> 'w"
  SearchUsersByEmail :: "string \<Rightarrow> 'w \<Rightarrow> (User list \<times> error option) \<times> 'w"
  UpdateUserState :: "string \<Rightarrow> int \<Rightarrow> 'w \<Rightarrow> (User option \<times> error option) \<times> 'w"
  GetUserByEmail :: "string \<Rightarrow> 'w \<Rightarrow> (User option \<times> error option) \<times> 'w"
  UpdateUser :: "User \<Rightarrow> 'w \<Rightarrow> (User \<times> error option) \<times> 'w"
  CreateUser :: "User \<Rightarrow> 'w \<Rightarrow> (User option \<times> error option) \<times> 'w"

text \<open>The struct literal \<open>dtos.GetUserDTO{...}\<close> that every handler below builds.\<close>

definition GetUserDTO_of :: "User \<Rightarrow> GetUserDTO" where
  "GetUserDTO_of user =
     \<lparr>GetUserDTO.ID = User.ID user,
      GetUserDTO.Email = User.Email user,
      GetUserDTO.Password = User.Password user,
      GetUserDTO.UserTypeID = User.UserTypeID user,
      GetUserDTO.UserStateID = User.UserStateTypeID user\<rparr>"

definition UserController_GetUserByID ::
  "('w UserService, 'b, 'w) Controller \<Rightarrow> 'b gin_Context
     \<Rightarrow> ('w, GetUserDTO) gin_state \<Rightarrow> ('w, GetUserDTO) gin_state" where
  "UserController_GetUserByID uc c s0 =
     (let id = Param c ''id'';
          (logErr, s1) = RegisterLog (Log uc) c (''Attempting to retrieve user with ID: '' @ id) s0
      in if logErr \<noteq> None then
           JSON StatusInternalServerError (error_body ''Error registering log'') s1
         else
           let (allowed, s2) = CheckPermission (Auth uc) c PERMISSION_GET_USER_BY_ID s1
           in if \<not> allowed then
                JSON StatusForbidden (error_body ''Access denied'')
                  (RegisterLog_ignored (Log uc) c ''Access denied for GetUserByID'' s2)
              else
                let ((user, err), s3) =
                      invoke ''UserService.GetUserByID'' (GetUserByID (Service uc) id) s2
                in case err of
                     Some e \<Rightarrow>
                       JSON StatusInternalServerError (error_body ''Error retrieving user'')
                         (RegisterLog_ignored (Log uc) c
                            (''Error retrieving user with ID '' @ id @ '': '' @ Error e) s3)
                   | None \<Rightarrow>
                       (case user of
                          None \<Rightarrow>
                            JSON StatusNotFound (error_body ''User not found'')
                              (RegisterLog_ignored (Log uc) c
                                 (''User with ID '' @ id @ '' not found'') s3)
                        | Some u \<Rightarrow>
                            JSON StatusOK (Object (GetUserDTO_of u))
                              (RegisterLog_ignored (Log uc) c
                                 (''Successfully retrieved user with ID: '' @ id) s3)))"

definition UserController_GetAllUsers ::
  "('w UserService, 'b, 'w) Controller \<Rightarrow> 'b gin_Context
     \<Rightarrow> ('w, GetUserDTO) gin_state \<Rightarrow> ('w, GetUserDTO) gin_state" where
  "UserController_GetAllUsers uc c s0 =
     (let (logErr, s1) = RegisterLog (Log uc) c ''Attempting to retrieve all users'' s0
      in if logErr \<noteq> None then
           JSON StatusInternalServerError (error_body ''Error registering log'') s1
         else
           let (allowed, s2) = CheckPermission (Auth uc) c PERMISSION_GET_ALL_USERS s1
           in if \<not> allowed then
                JSON StatusForbidden (error_body ''Access denied'')
                  (RegisterLog_ignored (Log uc) c ''Access denied for GetAllUsers'' s2)
              else
                let ((users, err), s3) =
                      invoke ''UserService.GetAllUsers'' (GetAllUsers (Service uc)) s2
                in case err of
                     Some e \<Rightarrow>
                       JSON StatusNotFound (error_body ''Users not found'')
                         (RegisterLog_ignored (Log uc) c
                            (''Error retrieving all users: '' @ Error e) s3)
                   | None \<Rightarrow>
                       JSON StatusOK (Array (map GetUserDTO_of users))
                         (RegisterLog_ignored (Log uc) c ''Successfully retrieved all users'' s3))"

definition UserController_SearchUsersByID ::
  "('w UserService, 'b, 'w) Controller \<Rightarrow> 'b gin_Context
     \<Rightarrow> ('w, GetUserDTO) gin_state \<Rightarrow> ('w, GetUserDTO) gin_state" where
  "UserController_SearchUsersByID uc c s0 =
     (let query = Query c ''id'';
          (logErr, s1) =
            RegisterLog (Log uc) c (''Attempting to search users by ID with query: '' @ query) s0
      in if logErr \<noteq> None then
           JSON StatusInternalServerError (error_body ''Error registering log'') s1
         else
           let (allowed, s2) = CheckPermission (Auth uc) c PERMISSION_SEARCH_USER_BY_ID s1
           in if \<not> allowed then
                JSON StatusForbidden (error_body ''Access denied'')
                  (RegisterLog_ignored (Log uc) c ''Access denied for SearchUsersByID'' s2)
              else if query = [] then
                JSON StatusBadRequest (error_body ''Query parameter is required'')
                  (RegisterLog_ignored (Log uc) c
                     ''Query parameter 'id' is missing for SearchUsersByID'' s2)
              else
                let ((users, err), s3) =
                      invoke ''UserService.SearchUsersByID'' (SearchUsersByID (Service uc) query) s2
                in case err of
                     Some e \<Rightarrow>
                       JSON StatusNotFound (error_body ''Users not found'')
                         (RegisterLog_ignored (Log uc) c
                            (''Error searching users by ID '' @ query @ '': '' @ Error e) s3)
                   | None \<Rightarrow>
                       if length users = 0 then
                         JSON StatusNotFound (H [(''message'', JStr ''No users found'')])
                           (RegisterLog_ignored (Log uc) c
                              (''No users found with ID containing: '' @ query) s3)
                       else
                         JSON StatusOK (Array (map GetUserDTO_of users))
                           (RegisterLog_ignored (Log uc) c
                              (''Successfully retrieved users with query: '' @ query) s3))"

definition UserController_SearchUsersByEmail ::
  "('w UserService, 'b, 'w) Controller \<Rightarrow> 'b gin_Context
     \<Rightarrow> ('w, GetUserDTO) gin_state \<Rightarrow> ('w, GetUserDTO) gin_state" where
  "UserController_SearchUsersByEmail uc c s0 =
     (let query = Query c ''email'';
          (logErr, s1) =
            RegisterLog (Log uc) c (''Attempting to search users by email with query: '' @ query) s0
      in if logErr \<noteq> None then
           JSON StatusInternalServerError (error_body ''Error registering log'') s1
         else
           let (allowed, s2) = CheckPermission (Auth uc) c PERMISSION_SEARCH_USERS_BY_EMAIL s1
           in if \<not> allowed then
                JSON StatusForbidden (error_body ''Access denied'')
                  (RegisterLog_ignored (Log uc) c ''Access denied for SearchUsersByEmail'' s2)
              else if query = [] then
                JSON StatusBadRequest (error_body ''Query parameter is required'')
                  (RegisterLog_ignored (Log uc) c
                     ''Query parameter 'email' is missing for SearchUsersByEmail'' s2)
              else
                let ((users, err), s3) =
                      invoke ''UserService.SearchUsersByEmail''
                        (SearchUsersByEmail (Service uc) query) s2
                in case err of
                     Some e \<Rightarrow>
                       JSON StatusNotFound (error_body ''Users not found'')
                         (RegisterLog_ignored (Log uc) c
                            (''Error searching users by email '' @ query @ '': '' @ Error e) s3)
                   | None \<Rightarrow>
                       if length users = 0 then
                         JSON StatusNotFound (H [(''message'', JStr ''No users found'')])
                           (RegisterLog_ignored (Log uc) c
                              (''No users found with email containing: '' @ query) s3)
                       else
                         JSON StatusOK (Array (map GetUserDTO_of users))
                           (RegisterLog_ignored (Log uc) c
                              (''Successfully retrieved users with email query: '' @ query) s3))"

definition UserController_UpdateUserState ::
  "('w UserService, request, 'w) Controller \<Rightarrow> request gin_Context
     \<Rightarrow> ('w, GetUserDTO) gin_state \<Rightarrow> ('w, GetUserDTO) gin_state" where
  "UserController_UpdateUserState uc c s0 =
     (let id = Param c ''id'';
          (logErr, s1) =
            RegisterLog (Log uc) c (''Attempting to update user state for ID: '' @ id) s0
      in if logErr \<noteq> None then
           JSON StatusInternalServerError (error_body ''Error registering log'') s1
         else
           let (allowed, s2) = CheckPermission (Auth uc) c PERMISSION_UPDATE_USER_STATE s1
           in if \<not> allowed then
                JSON StatusForbidden (error_body ''Access denied'')
                  (RegisterLog_ignored (Log uc) c ''Access denied for UpdateUserState'' s2)
              else
                case ShouldBindJSON c of
                  Inl err \<Rightarrow>
                    JSON StatusBadRequest (error_body (Error err))
                      (RegisterLog_ignored (Log uc) c
                         (''Invalid request body for UpdateUserState: '' @ Error err) s2)
                | Inr req \<Rightarrow>
                    let ((user, err), s3) =
                          invoke ''UserService.UpdateUserState''
                            (UpdateUserState (Service uc) id (UserState req)) s2
                    in if err \<noteq> None then
                         JSON StatusNotFound (error_body ''User not found'')
                           (RegisterLog_ignored (Log uc) c
                              (''User not found with ID '' @ id @ '' while updating state'') s3)
                       else
                         (case user of
                            None \<Rightarrow> nil_dereference s3
                          | Some u \<Rightarrow>
                              JSON StatusOK (Object (GetUserDTO_of u))
                                (RegisterLog_ignored (Log uc) c
                                   (''Successfully updated user state for ID: '' @ id) s3)))"

definition UserController_UpdateUser ::
  "('w UserService, UpdateUserDTO, 'w) Controller \<Rightarrow> UpdateUserDTO gin_Context
     \<Rightarrow> ('w, GetUserDTO) gin_state \<Rightarrow> ('w, GetUserDTO) gin_state" where
  "UserController_UpdateUser uc c s0 =
     (let id = Param c ''id'';
          (logErr, s1) = RegisterLog (Log uc) c (''Attempting to update user with ID: '' @ id) s0
      in if logErr \<noteq> None then
           JSON StatusInternalServerError (error_body ''Error registering log'') s1
         else
           let (allowed, s2) = CheckPermission (Auth uc) c PERMISSION_UPDATE_USER s1
           in if \<not> allowed then
                JSON StatusForbidden (error_body ''Access denied'')
                  (RegisterLog_ignored (Log uc) c ''Access denied for UpdateUser'' s2)
              else
                case ShouldBindJSON c of
                  Inl err \<Rightarrow>
                    JSON StatusBadRequest (error_body (Error err))
                      (RegisterLog_ignored (Log uc) c
                         (''Invalid request body for UpdateUser: '' @ Error err) s2)
                | Inr dto \<Rightarrow>
                    let ((user, err), s3) =
                          invoke ''UserService.GetUserByID'' (GetUserByID (Service uc) id) s2
                    in case err of
                         Some e \<Rightarrow>
                           if is_ErrRecordNotFound e then
                             JSON StatusNotFound (error_body ''User not found'')
                               (RegisterLog_ignored (Log uc) c
                                  (''User not found with ID: '' @ id) s3)
                           else
                             JSON StatusInternalServerError (error_body ''Internal server error'')
                               (RegisterLog_ignored (Log uc) c
                                  (''Error retrieving user with ID: '' @ id) s3)
                       | None \<Rightarrow>
                           (case user of
                              None \<Rightarrow> nil_dereference s3
                            | Some u \<Rightarrow>
                                let u1 = u\<lparr>User.Email := UpdateUserDTO.Email dto,
                                           User.Password := UpdateUserDTO.Password dto,
                                           User.UserTypeID := UpdateUserDTO.UserTypeID dto,
                                           User.UserStateTypeID := UpdateUserDTO.UserStateID dto\<rparr>;
                                    ((u2, err2), s4) =
                                      invoke ''UserService.UpdateUser''
                                        (UpdateUser (Service uc) u1) s3;
                                    dtoUser = GetUserDTO_of u2
                                in if err2 \<noteq> None then
                                     JSON StatusInternalServerError
                                       (error_body ''Internal server error'')
                                       (RegisterLog_ignored (Log uc) c
                                          (''Failed to update user with ID: '' @ id) s4)
                                   else
                                     JSON StatusOK (Object dtoUser)
                                       (RegisterLog_ignored (Log uc) c
                                          (''Successfully updated user with ID: '' @ id) s4)))"

definition UserController_CreateUser ::
  "('w UserService, CreateUserDTO, 'w) Controller \<Rightarrow> CreateUserDTO gin_Context
     \<Rightarrow> ('w, GetUserDTO) gin_state \<Rightarrow> ('w, GetUserDTO) gin_state" where
  "UserController_CreateUser uc c s0 =
     (let (logErr, s1) = RegisterLog (Log uc) c ''Attempting to create new user'' s0
      in if logErr \<noteq> None then
           JSON StatusInternalServerError (error_body ''Error registering log'') s1
         else
           let (allowed, s2) = CheckPermission (Auth uc) c PERMISSION_CREATE_USER s1
           in if \<not> allowed then
                JSON StatusForbidden (error_body ''Access denied'')
                  (RegisterLog_ignored (Log uc) c ''Access denied for CreateUser'' s2)
              else
                case ShouldBindJSON c of
                  Inl err \<Rightarrow>
                    JSON StatusBadRequest (error_body (Error err))
                      (RegisterLog_ignored (Log uc) c
                         (''Invalid request body for CreateUser: '' @ Error err) s2)
                | Inr dto \<Rightarrow>
                    let ((existingUser, _), s3) =
                          invoke ''UserService.GetUserByEmail''
                            (GetUserByEmail (Service uc) (CreateUserDTO.Email dto)) s2
                    in if existingUser \<noteq> None then
                         JSON StatusConflict (error_body ''Email already in use'')
                           (RegisterLog_ignored (Log uc) c
                              (''Email already in use: '' @ CreateUserDTO.Email dto) s3)
                       else
                         let newUser =
                               \<lparr>User.ID = 0,
                                User.Email = CreateUserDTO.Email dto,
                                User.Password = CreateUserDTO.Password dto,
                                User.UserTypeID = CreateUserDTO.UserTypeID dto,
                                User.UserStateTypeID = CreateUserDTO.UserStateID dto\<rparr>;
                             ((createdUser, err), s4) =
                               invoke ''UserService.CreateUser'' (CreateUser (Service uc) newUser) s3
                         in case err of
                              Some e \<Rightarrow>
                                JSON StatusInternalServerError (error_body ''Failed to create user'')
                                  (RegisterLog_ignored (Log uc) c
                                     (''Failed to create user: '' @ Error e) s4)
                            | None \<Rightarrow>
                                (case createdUser of
                                   None \<Rightarrow> nil_dereference s4
                                 | Some u \<Rightarrow>
                                     JSON StatusCreated (Object (GetUserDTO_of u))
                                       (RegisterLog_ignored (Log uc) c
                                          (''Successfully created user with ID: '' @ Itoa (User.ID u))
                                          s4)))"

section \<open>AppointmentController (GetAppointmentByID, GetAllAppointments, SearchAppointmentsByID)\<close>

text \<open>
  \<open>models.Appointment\<close> is handed to \<open>c.JSON\<close> as it comes from the service: it
  is the type \<open>'e\<close>.  \<open>fmt.Println\<close> in \<open>SearchAppointmentsByID\<close> writes to the
  process's standard output and is left out.
\<close>

record ('e, 'w) AppointmentService =
  GetAppointmentByID :: "int \<Rightarrow> 'w \<Rightarrow> ('e \<times> error option) \<times> 'w"
  GetAllAppointments :: "'w \<Rightarrow> ('e list \<times> error option) \<times> 'w"
  SearchAppointmentsByID :: "string \<Rightarrow> 'w \<Rightarrow> ('e list \<times> error option) \<times> 'w"

definition AppointmentController_GetAppointmentByID ::
  "(('e, 'w) AppointmentService, 'b, 'w) Controller \<Rightarrow> 'b gin_Context
     \<Rightarrow> ('w, 'e) gin_state \<Rightarrow> ('w, 'e) gin_state" where
  "AppointmentController_GetAppointmentByID ac c s0 =
     (let (logErr, s1) = RegisterLog (Log ac) c ''Attempting to get appointment by ID'' s0
      in if logErr \<noteq> None then
           JSON StatusInternalServerError (error_body ''Error registering log'') s1
         else
           let (allowed, s2) = CheckPermission (Auth ac) c PERMISSION_GET_APPOINTMENT_BY_ID s1
           in if \<not> allowed then
                RegisterLog_ignored (Log ac) c ''Access denied for GetAppointmentByID'' s2
              else
                let (id, err) = Atoi (Param c ''id'')
                in if err \<noteq> None then
                     JSON StatusBadRequest (error_body ''Invalid appointment ID'')
                       (RegisterLog_ignored (Log ac) c
                          (''Invalid appointment ID: '' @ Param c ''id'') s2)
                   else
                     let ((appointment, err), s3) =
                           invoke ''AppointmentService.GetAppointmentByID''
                             (GetAppointmentByID (Service ac) id) s2
                     in if err \<noteq> None then
                          JSON StatusNotFound (error_body ''Appointment not found'')
                            (RegisterLog_ignored (Log ac) c
                               (''Appointment not found for ID: '' @ Itoa id) s3)
                        else
                          JSON StatusOK (Object appointment)
                            (RegisterLog_ignored (Log ac) c
                               (''Appointment retrieved successfully for ID: '' @ Itoa id) s3))"

definition AppointmentController_GetAllAppointments ::
  "(('e, 'w) AppointmentService, 'b, 'w) Controller \<Rightarrow> 'b gin_Context
     \<Rightarrow> ('w, 'e) gin_state \<Rightarrow> ('w, 'e) gin_state" where
  "AppointmentController_GetAllAppointments ac c s0 =
     (let (logErr, s1) = RegisterLog (Log ac) c ''Attempting to retrieve all appointments'' s0
      in if logErr \<noteq> None then
           JSON StatusInternalServerError (error_body ''Error registering log'') s1
         else
           let (allowed, s2) = CheckPermission (Auth ac) c PERMISSION_GET_ALL_APPOINTMENTS s1
           in if \<not> allowed then
                RegisterLog_ignored (Log ac) c ''Access denied for GetAllAppointments'' s2
              else
                let ((appointments, err), s3) =
                      invoke ''AppointmentService.GetAllAppointments''
                        (GetAllAppointments (Service ac)) s2
                in if err \<noteq> None then
                     JSON StatusInternalServerError (error_body ''Error retrieving appointments'')
                       (RegisterLog_ignored (Log ac) c ''Error retrieving appointments'' s3)
                   else
                     JSON StatusOK (Array appointments)
                       (RegisterLog_ignored (Log ac) c ''All appointments retrieved successfully'' s3))"

definition AppointmentController_SearchAppointmentsByID ::
  "(('e, 'w) AppointmentService, 'b, 'w) Controller \<Rightarrow> 'b gin_Context
     \<Rightarrow> ('w, 'e) gin_state \<Rightarrow> ('w, 'e) gin_state" where
  "AppointmentController_SearchAppointmentsByID ac c s0 =
     (let (logErr, s1) = RegisterLog (Log ac) c ''Attempting to search appointments by ID'' s0
      in if logErr \<noteq> None then
           JSON StatusInternalServerError (error_body ''Error registering log'') s1
         else
           let (allowed, s2) = CheckPermission (Auth ac) c PERMISSION_SEARCH_APPOINTMENTS_BY_ID s1
           in if \<not> allowed then
                RegisterLog_ignored (Log ac) c ''Access denied for SearchAppointmentsByID'' s2
              else
                let query = Query c ''id'';
                    ((appointments, err), s3) =
                      invoke ''AppointmentService.SearchAppointmentsByID''
                        (SearchAppointmentsByID (Service ac) query) s2
                in if err \<noteq> None then
                     JSON StatusInternalServerError (error_body ''Error retrieving appointments'')
                       (RegisterLog_ignored (Log ac) c ''Error retrieving appointments'' s3)
                   else if length appointments = 0 then
                     JSON StatusNotFound (H [(''message'', JStr ''No appointments found'')])
                       (RegisterLog_ignored (Log ac) c ''No appointments found for given ID'' s3)
                   else
                     JSON StatusOK (Array appointments)
                       (RegisterLog_ignored (Log ac) c ''Appointments found by ID successfully'' s3))"

section \<open>AdditionalExpenseController (GetAdditionalExpenseByID, GetAllAdditionalExpenses)\<close>

text \<open>\<open>*models.AdditionalExpense\<close> is a pointer to a value of type \<open>'e\<close>.\<close>

record ('e, 'w) AdditionalExpenseService =
  GetAdditionalExpenseByID :: "string \<Rightarrow> 'w \<Rightarrow> ('e option \<times> error option) \<times> 'w"
  GetAllAdditionalExpenses :: "'w \<Rightarrow> ('e list \<times> error option) \<times> 'w"

definition AdditionalExpenseController_GetAdditionalExpenseByID ::
  "(('e, 'w) AdditionalExpenseService, 'b, 'w) Controller \<Rightarrow> 'b gin_Context
     \<Rightarrow> ('w, 'e) gin_state \<Rightarrow> ('w, 'e) gin_state" where
  "AdditionalExpenseController_GetAdditionalExpenseByID aec c s0 =
     (let idParam = Param c ''id'';
          (logErr, s1) =
            RegisterLog (Log aec) c
              (''Attempting to retrieve AdditionalExpense with ID: '' @ idParam) s0
      in if logErr \<noteq> None then
           JSON StatusInternalServerError (error_body ''Error registering log'') s1
         else
           let (allowed, s2) =
                 CheckPermission (Auth aec) c PERMISSION_GET_ADDITIONAL_EXPENSE_BY_ID s1
           in if \<not> allowed then
                RegisterLog_ignored (Log aec) c ''Access denied for GetAdditionalExpenseByID'' s2
              else
                let ((additionalExpense, err), s3) =
                      invoke ''AdditionalExpenseService.GetAdditionalExpenseByID''
                        (GetAdditionalExpenseByID (Service aec) idParam) s2
                in case err of
                     Some e \<Rightarrow>
                       JSON StatusInternalServerError
                         (error_body ''Error retrieving Additional Expense'')
                         (RegisterLog_ignored (Log aec) c
                            (''Error retrieving AdditionalExpense with ID '' @ idParam @ '': ''
                               @ Error e) s3)
                   | None \<Rightarrow>
                       (case additionalExpense of
                          None \<Rightarrow>
                            JSON StatusNotFound (error_body ''Additional Expense not found'')
                              (RegisterLog_ignored (Log aec) c
                                 (''AdditionalExpense with ID '' @ idParam @ '' not found'') s3)
                        | Some a \<Rightarrow>
                            JSON StatusOK (Object a)
                              (RegisterLog_ignored (Log aec) c
                                 (''Successfully retrieved AdditionalExpense with ID: '' @ idParam)
                                 s3)))"

definition AdditionalExpenseController_GetAllAdditionalExpenses ::
  "(('e, 'w) AdditionalExpenseService, 'b, 'w) Controller \<Rightarrow> 'b gin_Context
     \<Rightarrow> ('w, 'e) gin_state \<Rightarrow> ('w, 'e) gin_state" where
  "AdditionalExpenseController_GetAllAdditionalExpenses aec c s0 =
     (let (logErr, s1) =
            RegisterLog (Log aec) c ''Attempting to retrieve all AdditionalExpenses'' s0
      in if logErr \<noteq> None then
           JSON StatusInternalServerError (error_body ''Error registering log'') s1
         else
           let (allowed, s2) =
                 CheckPermission (Auth aec) c PERMISSION_GET_ALL_ADDITIONAL_EXPENSE s1
           in if \<not> allowed then
                JSON StatusForbidden (error_body ''Permission denied'')
                  (RegisterLog_ignored (Log aec) c ''Access denied for GetAllAdditionalExpenses'' s2)
              else
                let ((additionalExpenses, err), s3) =
                      invoke ''AdditionalExpenseService.GetAllAdditionalExpenses''
                        (GetAllAdditionalExpenses (Service aec)) s2
                in case err of
                     Some e \<Rightarrow>
                       JSON StatusInternalServerError
                         (error_body ''Error retrieving additional expenses'')
                         (RegisterLog_ignored (Log aec) c
                            (''Error retrieving all AdditionalExpenses: '' @ Error e) s3)
                   | None \<Rightarrow>
                       JSON StatusOK (Array additionalExpenses)
                         (RegisterLog_ignored (Log aec) c
                            ''Successfully retrieved all AdditionalExpenses'' s3))"

section \<open>UserStateTypeController\<close>

record ('e, 'w) UserStateTypeService =
  GetUserStateTypeByID :: "string \<Rightarrow> 'w \<Rightarrow> ('e \<times> error option) \<times> 'w"
  GetAllUserStateTypes :: "'w \<Rightarrow> ('e list \<times> error option) \<times> 'w"

definition UserStateTypeController_GetUserStateTypeByID ::
  "(('e, 'w) UserStateTypeService, 'b, 'w) Controller \<Rightarrow> 'b gin_Context
     \<Rightarrow> ('w, 'e) gin_state \<Rightarrow> ('w, 'e) gin_state" where
  "UserStateTypeController_GetUserStateTypeByID ustc c s0 =
     (let (allowed, s1) = CheckPermission (Auth ustc) c PERMISSION_GET_USER_STATE_TYPE_BY_ID s0
      in if \<not> allowed then
           RegisterLog_ignored (Log ustc) c ''Access denied for GetUserStateTypeByID'' s1
         else
           let id = Param c ''id'';
               (logErr, s2) =
                 RegisterLog (Log ustc) c
                   (''Attempting to retrieve user state type with ID: '' @ id) s1
           in if logErr \<noteq> None then
                JSON StatusInternalServerError (error_body ''Error registering log'') s2
              else
                let ((userStateType, err), s3) =
                      invoke ''UserStateTypeService.GetUserStateTypeByID''
                        (GetUserStateTypeByID (Service ustc) id) s2
                in if err \<noteq> None then
                     JSON StatusNotFound (error_body ''User State Type not found'') s3
                   else
                     JSON StatusOK (Object userStateType)
                       (RegisterLog_ignored (Log ustc) c
                          (''Successfully retrieved user state type with ID: '' @ id) s3))"

definition UserStateTypeController_GetAllUserStateTypes ::
  "(('e, 'w) UserStateTypeService, 'b, 'w) Controller \<Rightarrow> 'b gin_Context
     \<Rightarrow> ('w, 'e) gin_state \<Rightarrow> ('w, 'e) gin_state" where
  "UserStateTypeController_GetAllUserStateTypes ustc c s0 =
     (let (allowed, s1) = CheckPermission (Auth ustc) c PERMISSION_GET_ALL_USER_STATE_TYPES s0
      in if \<not> allowed then
           RegisterLog_ignored (Log ustc) c ''Access denied for GetAllUserStateTypes'' s1
         else
           let (logErr, s2) =
                 RegisterLog (Log ustc) c ''Attempting to retrieve all user state types'' s1
           in if logErr \<noteq> None then
                JSON StatusInternalServerError (error_body ''Error registering log'') s2
              else
                let ((userStateTypes, err), s3) =
                      invoke ''UserStateTypeService.GetAllUserStateTypes''
                        (GetAllUserStateTypes (Service ustc)) s2
                in if err \<noteq> None then
                     JSON StatusInternalServerError
                       (error_body ''Error retrieving User State Types'') s3
                   else
                     JSON StatusOK (Array userStateTypes)
                       (RegisterLog_ignored (Log ustc) c
                          ''Successfully retrieved all user state types'' s3))"

section \<open>BillingController and RoleController: no audit writer\<close>

text \<open>
  In \<open>controllers/billing_controller.go\<close> and \<open>controllers/role_controller.go\<close>
  both structs have the fields \<open>Service\<close> and \<open>Auth\<close> only.  The bound value of
  \<open>CalculateSubtotal\<close> is \<open>[]dtos.BillingItemDTO\<close>, the subtotal a \<open>float64\<close>
  computed by the service: the types \<open>'i list\<close> and \<open>'f\<close>.
\<close>

record ('i, 'f, 'w) BillingService =
  CalculateSubtotal :: "'i list \<Rightarrow> 'w \<Rightarrow> ('f \<times> error option) \<times> 'w"

definition BillingController_CalculateSubtotal ::
  "(('i, 'f, 'w) BillingService, 'i list, 'w) AuthController \<Rightarrow> 'i list gin_Context
     \<Rightarrow> ('w, 'f) gin_state \<Rightarrow> ('w, 'f) gin_state" where
  "BillingController_CalculateSubtotal bc c s0 =
     (let (allowed, s1) = CheckPermission (Auth bc) c PERMISSION_CALCULATE_SUBTOTAL s0
      in if \<not> allowed then s1
         else
           case ShouldBindJSON c of
             Inl err \<Rightarrow> JSON StatusBadRequest (error_body ''Invalid request data'') s1
           | Inr itemsDTO \<Rightarrow>
               let ((subtotal, err), s2) =
                     invoke ''BillingService.CalculateSubtotal''
                       (CalculateSubtotal (Service bc) itemsDTO) s1
               in case err of
                    Some e \<Rightarrow> JSON StatusNotFound (error_body (Error e)) s2
                  | None \<Rightarrow> JSON StatusOK (H [(''subtotal'', JVal subtotal)]) s2)"

record Role =
  ID :: nat
  Name :: string
  Description :: string

record RoleDTO =
  ID :: nat
  Name :: string
  Description :: string
  Permissions :: "string list"

record 'w RoleService =
  GetRoleByID :: "nat \<Rightarrow> 'w \<Rightarrow> (Role option \<times> error option) \<times> 'w"
  GetRolePermissions :: "nat \<Rightarrow> 'w \<Rightarrow> (int list \<times> error option) \<times> 'w"

text \<open>
  \<open>fmt.Sscanf(idParam, "%d", &id)\<close> with \<open>id\<close> of type \<open>uint\<close> belongs to Go's
  standard library; the handler takes it as \<open>Sscanf\<close>, giving the value stored in
  \<open>id\<close> and the error.
\<close>

definition RoleController_GetRoleByID ::
  "(string \<Rightarrow> nat \<times> error option) \<Rightarrow> ('w RoleService, 'b, 'w) AuthController
     \<Rightarrow> 'b gin_Context \<Rightarrow> ('w, RoleDTO) gin_state \<Rightarrow> ('w, RoleDTO) gin_state" where
  "RoleController_GetRoleByID Sscanf rc c s0 =
     (let (allowed, s1) = CheckPermission (Auth rc) c PERMISSION_GET_ROLE_BY_ID s0
      in if \<not> allowed then s1
         else
           let idParam = Param c ''id'';
               (id, err) = Sscanf idParam
           in if err \<noteq> None then JSON StatusBadRequest (error_body ''Invalid role ID'') s1
              else
                let ((role, err), s2) =
                      invoke ''RoleService.GetRoleByID'' (GetRoleByID (Service rc) id) s1
                in if err \<noteq> None then JSON StatusNotFound (error_body ''Role not found'') s2
                   else
                     let ((permissionIDs, err), s3) =
                           invoke ''RoleService.GetRolePermissions''
                             (GetRolePermissions (Service rc) id) s2
                     in if err \<noteq> None then
                          JSON StatusInternalServerError
                            (error_body ''Error retrieving role permissions'') s3
                        else
                          (case role of
                             None \<Rightarrow> nil_dereference s3
                           | Some r \<Rightarrow>
                               JSON StatusOK
                                 (Object
                                    \<lparr>RoleDTO.ID = Role.ID r,
                                     RoleDTO.Name = Role.Name r,
                                     RoleDTO.Description = Role.Description r,
                                     RoleDTO.Permissions = map Itoa permissionIDs\<rparr>) s3))"

section \<open>EmployeeController.CreateEmployee\<close>

record Employee =
  ID :: int
  Names :: string
  LastNames :: string
  PersonalID :: string
  Address :: string
  PhoneNumbers :: string
  UserID :: int
  IdentifierTypeID :: int

record CreateEmployeeDTO =
  Names :: string
  LastNames :: string
  PersonalID :: string
  Address :: string
  PhoneNumbers :: string
  UserID :: int
  IdentifierTypeID :: int

record GetEmployeeDTO =
  ID :: int
  Names :: string
  LastNames :: string
  PersonalID :: string
  Address :: string
  PhoneNumbers :: string
  UserID :: int
  IdentifierTypeID :: int

record 'w EmployeeService =
  GetEmployeeByID :: "string \<Rightarrow> 'w \<Rightarrow> (Employee option \<times> error option) \<times> 'w"
  CreateEmployee :: "Employee \<Rightarrow> 'w \<Rightarrow> (Employee option \<times> error option) \<times> 'w"

definition EmployeeController_CreateEmployee ::
  "('w EmployeeService, CreateEmployeeDTO, 'w) Controller \<Rightarrow> CreateEmployeeDTO gin_Context
     \<Rightarrow> ('w, GetEmployeeDTO) gin_state \<Rightarrow> ('w, GetEmployeeDTO) gin_state" where
  "EmployeeController_CreateEmployee ec c s0 =
     (let (logErr, s1) = RegisterLog (Log ec) c ''Attempting to create an employee'' s0
      in if logErr \<noteq> None then
           JSON StatusInternalServerError (error_body ''Error registering log'') s1
         else
           let (allowed, s2) = CheckPermission (Auth ec) c PERMISSION_CREATE_EMPLOYEE s1
           in if \<not> allowed then
                JSON StatusForbidden (error_body ''Permission denied'')
                  (RegisterLog_ignored (Log ec) c ''Permission denied for CreateEmployee'' s2)
              else
                case ShouldBindJSON c of
                  Inl err \<Rightarrow>
                    JSON StatusBadRequest
                      (H [(''error'', JStr ''Invalid JSON format''), (''details'', JStr (Error err))])
                      (RegisterLog_ignored (Log ec) c (''Invalid JSON format: '' @ Error err) s2)
                | Inr dto \<Rightarrow>
                    let ((existingEmployee, _), s3) =
                          invoke ''EmployeeService.GetEmployeeByID''
                            (GetEmployeeByID (Service ec) (CreateEmployeeDTO.PersonalID dto)) s2
                    in if existingEmployee \<noteq> None then
                         JSON StatusConflict
                           (error_body ''An employee with this Personal ID already exists'')
                           (RegisterLog_ignored (Log ec) c
                              (''Attempt to create duplicate employee with PersonalID: ''
                                 @ CreateEmployeeDTO.PersonalID dto) s3)
                       else if CreateEmployeeDTO.UserID dto \<le> 0
                               \<or> CreateEmployeeDTO.IdentifierTypeID dto \<le> 0 then
                         JSON StatusBadRequest
                           (error_body ''Invalid User ID or Identifier Type ID'')
                           (RegisterLog_ignored (Log ec) c
                              (''Invalid UserID or IdentifierTypeID: UserID=''
                                 @ Itoa (CreateEmployeeDTO.UserID dto)
                                 @ '', IdentifierTypeID=''
                                 @ Itoa (CreateEmployeeDTO.IdentifierTypeID dto)) s3)
                       else
                         let employee =
                               \<lparr>Employee.ID = 0,
                                Employee.Names = CreateEmployeeDTO.Names dto,
                                Employee.LastNames = CreateEmployeeDTO.LastNames dto,
                                Employee.PersonalID = CreateEmployeeDTO.PersonalID dto,
                                Employee.Address = CreateEmployeeDTO.Address dto,
                                Employee.PhoneNumbers = CreateEmployeeDTO.PhoneNumbers dto,
                                Employee.UserID = CreateEmployeeDTO.UserID dto,
                                Employee.IdentifierTypeID = CreateEmployeeDTO.IdentifierTypeID dto\<rparr>;
                             ((createdEmployee, err), s4) =
                               invoke ''EmployeeService.CreateEmployee''
                                 (CreateEmployee (Service ec) employee) s3
                         in case err of
                              Some e \<Rightarrow>
                                JSON StatusInternalServerError
                                  (H [(''error'', JStr ''Error creating employee''),
                                      (''details'', JStr (Error e))])
                                  (RegisterLog_ignored (Log ec) c
                                     (''Error creating employee: '' @ Error e) s4)
                            | None \<Rightarrow>
                                (case createdEmployee of
                                   None \<Rightarrow> nil_dereference s4
                                 | Some e \<Rightarrow>
                                     JSON StatusCreated
                                       (Object
                                          \<lparr>GetEmployeeDTO.ID = Employee.ID e,
                                           GetEmployeeDTO.Names = Employee.Names e,
                                           GetEmployeeDTO.LastNames = Employee.LastNames e,
                                           GetEmployeeDTO.PersonalID = Employee.PersonalID e,
                                           GetEmployeeDTO.Address = Employee.Address e,
                                           GetEmployeeDTO.PhoneNumbers = Employee.PhoneNumbers e,
                                           GetEmployeeDTO.UserID = Employee.UserID e,
                                           GetEmployeeDTO.IdentifierTypeID =
                                             Employee.IdentifierTypeID e\<rparr>)
                                       (RegisterLog_ignored (Log ec) c
                                          (''Successfully created employee with PersonalID: ''
                                             @ Employee.PersonalID e) s4)))"

section \<open>CustomerController.SearchCustomersByID\<close>

record Customer =
  ID :: int
  CustomerName :: string
  CustomerId :: string
  IsBusiness :: bool
  Address :: string
  PhoneNumbers :: string
  CustomerState :: bool
  Email :: string
  LastName :: string
  IdentifierTypeID :: int

record GetCustomerDTO =
  ID :: int
  CustomerName :: string
  CustomerId :: string
  IsBusiness :: bool
  Address :: string
  PhoneNumbers :: string
  CustomerState :: bool
  Email :: string
  LastName :: string
  IdentifierTypeID :: int

record 'w CustomerService =
  SearchCustomersByID :: "string \<Rightarrow> 'w \<Rightarrow> (Customer list \<times> error option) \<times> 'w"

definition GetCustomerDTO_of :: "Customer \<Rightarrow> GetCustomerDTO" where
  "GetCustomerDTO_of customer =
     \<lparr>GetCustomerDTO.ID = Customer.ID customer,
      GetCustomerDTO.CustomerName = Customer.CustomerName customer,
      GetCustomerDTO.CustomerId = Customer.CustomerId customer,
      GetCustomerDTO.IsBusiness = Customer.IsBusiness customer,
      GetCustomerDTO.Address = Customer.Address customer,
      GetCustomerDTO.PhoneNumbers = Customer.PhoneNumbers customer,
      GetCustomerDTO.CustomerState = Customer.CustomerState customer,
      GetCustomerDTO.Email = Customer.Email customer,
      GetCustomerDTO.LastName = Customer.LastName customer,
      GetCustomerDTO.IdentifierTypeID = Customer.IdentifierTypeID customer\<rparr>"

definition CustomerController_SearchCustomersByID ::
  "('w CustomerService, 'b, 'w) Controller \<Rightarrow> 'b gin_Context
     \<Rightarrow> ('w, GetCustomerDTO) gin_state \<Rightarrow> ('w, GetCustomerDTO) gin_state" where
  "CustomerController_SearchCustomersByID cc c s0 =
     (let (logErr, s1) = RegisterLog (Log cc) c ''Attempting to search customers by ID'' s0
      in if logErr \<noteq> None then
           JSON StatusInternalServerError (error_body ''Error registering log'') s1
         else
           let (allowed, s2) = CheckPermission (Auth cc) c PERMISSION_SEARCH_CUSTOMERS_BY_ID s1
           in if \<not> allowed then
                RegisterLog_ignored (Log cc) c ''Access denied for SearchCustomersByID'' s2
              else
                let query = Query c ''id'';
                    ((customers, err), s3) =
                      invoke ''CustomerService.SearchCustomersByID''
                        (SearchCustomersByID (Service cc) query) s2
                in if err \<noteq> None then
                     JSON StatusInternalServerError (error_body ''Error retrieving customers'')
                       (RegisterLog_ignored (Log cc) c
                          (''Error retrieving customers by ID query: '' @ query) s3)
                   else if length customers = 0 then
                     JSON StatusNotFound (H [(''message'', JStr ''No customers found'')])
                       (RegisterLog_ignored (Log cc) c
                          (''No customers found for ID query: '' @ query) s3)
                   else
                     JSON StatusOK (Array (map GetCustomerDTO_of customers))
                       (RegisterLog_ignored (Log cc) c
                          (''Customers retrieved successfully for ID query: '' @ query) s3))"

section \<open>ItemController.GetItemByID and ItemController.GetAllItems\<close>

text \<open>
  Of an item's additional expenses the controller reads the \<open>ID\<close> only.  The two
  prices are \<open>float64\<close> values that the controller copies: the type \<open>'f\<close>.
\<close>

record AdditionalExpense =
  ID :: int

record 'f Item =
  ID :: int
  Name :: string
  Description :: string
  Stock :: int
  SellingPrice :: 'f
  PurchasePrice :: 'f
  ItemState :: bool
  ItemTypeID :: int
  AdditionalExpenses :: "AdditionalExpense list"

record 'f GetItemDTO =
  ID :: int
  Name :: string
  Description :: string
  Stock :: int
  SellingPrice :: 'f
  PurchasePrice :: 'f
  ItemState :: bool
  ItemTypeID :: int
  AdditionalExpenses :: "int list"

record ('f, 'w) ItemService =
  GetItemByID :: "string \<Rightarrow> 'w \<Rightarrow> ('f Item option \<times> error option) \<times> 'w"
  GetAllItems :: "'w \<Rightarrow> ('f Item list \<times> error option) \<times> 'w"

definition GetItemDTO_of :: "'f Item \<Rightarrow> 'f GetItemDTO" where
  "GetItemDTO_of item =
     (let additionalExpenseIDs = map AdditionalExpense.ID (Item.AdditionalExpenses item)
      in \<lparr>GetItemDTO.ID = Item.ID item,
          GetItemDTO.Name = Item.Name item,
          GetItemDTO.Description = Item.Description item,
          GetItemDTO.Stock = Item.Stock item,
          GetItemDTO.SellingPrice = Item.SellingPrice item,
          GetItemDTO.PurchasePrice = Item.PurchasePrice item,
          GetItemDTO.ItemState = Item.ItemState item,
          GetItemDTO.ItemTypeID = Item.ItemTypeID item,
          GetItemDTO.AdditionalExpenses = additionalExpenseIDs\<rparr>)"

definition ItemController_GetItemByID ::
  "(('f, 'w) ItemService, 'b, 'w) Controller \<Rightarrow> 'b gin_Context
     \<Rightarrow> ('w, 'f GetItemDTO) gin_state \<Rightarrow> ('w, 'f GetItemDTO) gin_state" where
  "ItemController_GetItemByID ic c s0 =
     (let id = Param c ''id'';
          (logErr, s1) = RegisterLog (Log ic) c (''Fetching item by ID: '' @ id) s0
      in if logErr \<noteq> None then
           JSON StatusInternalServerError (error_body ''Error registering log'') s1
         else
           let ((item, err), s2) =
                 invoke ''ItemService.GetItemByID'' (GetItemByID (Service ic) id) s1
           in if err \<noteq> None then
                JSON StatusNotFound (error_body ''Item not found'')
                  (RegisterLog_ignored (Log ic) c (''Item not found with ID: '' @ id) s2)
              else
                (case item of
                   None \<Rightarrow> nil_dereference s2
                 | Some i \<Rightarrow>
                     JSON StatusOK (Object (GetItemDTO_of i))
                       (RegisterLog_ignored (Log ic) c
                          (''Successfully fetched item with ID: '' @ id) s2)))"

definition ItemController_GetAllItems ::
  "(('f, 'w) ItemService, 'b, 'w) Controller \<Rightarrow> 'b gin_Context
     \<Rightarrow> ('w, 'f GetItemDTO) gin_state \<Rightarrow> ('w, 'f GetItemDTO) gin_state" where
  "ItemController_GetAllItems ic c s0 =
     (let (logErr, s1) = RegisterLog (Log ic) c ''Fetching all items'' s0
      in if logErr \<noteq> None then
           JSON StatusInternalServerError (error_body ''Error registering log'') s1
         else
           let ((items, err), s2) = invoke ''ItemService.GetAllItems'' (GetAllItems (Service ic)) s1
           in if err \<noteq> None then
                JSON StatusInternalServerError (error_body ''Error retrieving items'')
                  (RegisterLog_ignored (Log ic) c ''Error retrieving items'' s2)
              else
                JSON StatusOK (Array (map GetItemDTO_of items))
                  (RegisterLog_ignored (Log ic) c ''Successfully retrieved all items'' s2))"

section \<open>The authorization check of the specification\<close>

text \<open>
  Modelled from the spec: \<open>utilities.AuthorizationUtil.CheckPermission\<close> and
  \<open>services.AuthorizationService.UserHasPermission\<close> are not among the sources.
  The specification's data model: the permission registry maps symbolic names to
  integer codes; a role is a named set of permission codes; a user type is a named set
  of roles; a principal has an identifier and a user type, and may be absent.
\<close>

type_synonym PermissionRegistry = "(string \<times> int) list"

record RoleSet =
  RoleName :: string
  RolePermissions :: "int list"

record UserType =
  TypeName :: string
  Roles :: "RoleSet list"

record Principal =
  Identifier :: string
  Type :: UserType

definition registered :: "PermissionRegistry \<Rightarrow> int \<Rightarrow> bool" where
  "registered registry permissionID = (permissionID \<in> set (map snd registry))"

text \<open>
  Modelled from the spec: the effective permission set is the union of the permissions
  of all roles of the principal's user type.
\<close>

definition effective_permissions :: "Principal \<Rightarrow> int set" where
  "effective_permissions p = (\<Union>r \<in> set (Roles (Type p)). set (RolePermissions r))"

text \<open>
  Modelled from the spec: \<open>CheckPermission(principal, permissionID) -> bool\<close>,
  resolving principal, user type, roles and permissions at check time.  An absent
  principal and an id that the registry does not hold are denied.
\<close>

definition CheckPermission_spec ::
  "PermissionRegistry \<Rightarrow> Principal option \<Rightarrow> int \<Rightarrow> bool" where
  "CheckPermission_spec registry actor permissionID =
     (case actor of
        None \<Rightarrow> False
      | Some p \<Rightarrow>
          registered registry permissionID
          \<and> list_ex (\<lambda>r. permissionID \<in> set (RolePermissions r)) (Roles (Type p)))"

text \<open>The roles of a principal hold registered permissions only.\<close>

definition roles_registered :: "PermissionRegistry \<Rightarrow> Principal \<Rightarrow> bool" where
  "roles_registered registry p =
     list_all (\<lambda>r. list_all (registered registry) (RolePermissions r)) (Roles (Type p))"

section \<open>Properties of a finished request\<close>

text \<open>
  The attempt log \<open>lg c msg\<close>, made in backend \<open>w\<close>: whether it returned nil, and
  the backend it left.
\<close>

abbreviation audit_ok :: "('b, 'w) LogUtil \<Rightarrow> 'b gin_Context \<Rightarrow> string \<Rightarrow> 'w \<Rightarrow> bool" where
  "audit_ok lg c msg w \<equiv> fst (lg c msg w) = None"

abbreviation audited :: "('b, 'w) LogUtil \<Rightarrow> 'b gin_Context \<Rightarrow> string \<Rightarrow> 'w \<Rightarrow> 'w" where
  "audited lg c msg w \<equiv> snd (lg c msg w)"

definition statuses :: "('w, 'a) gin_state \<Rightarrow> nat list" where
  "statuses s = map fst (written s)"

fun is_log :: "call \<Rightarrow> bool" where
  "is_log (CallRegisterLog _) = True"
| "is_log _ = False"

fun is_service :: "call \<Rightarrow> bool" where
  "is_service (CallService _) = True"
| "is_service _ = False"

fun is_check :: "call \<Rightarrow> bool" where
  "is_check (CallCheckPermission _) = True"
| "is_check _ = False"

text \<open>
  Audit before action, for a handler whose attempt log returned \<open>logErr\<close> and that
  finished in \<open>s\<close>: the first collaborator call is the attempt log, and when it
  failed the only response is a 500 and no other collaborator was called.
\<close>

definition audit_before_action :: "string \<Rightarrow> error option \<Rightarrow> ('w, 'a) gin_state \<Rightarrow> bool" where
  "audit_before_action msg logErr s =
     (case calls s of
        [] \<Rightarrow> False
      | first # rest \<Rightarrow>
          first = CallRegisterLog msg
          \<and> (if logErr \<noteq> None
              then rest = [] \<and> statuses s = [StatusInternalServerError]
              else True))"

text \<open>The uniform failure body of the specification: \<open>{"error": string}\<close>.\<close>

fun is_error_object :: "'a body \<Rightarrow> bool" where
  "is_error_object (H [(k, JStr msg)]) = (k = ''error'')"
| "is_error_object _ = False"

definition uniform_response :: "nat \<times> 'a body \<Rightarrow> bool" where
  "uniform_response r =
     (fst r \<in> set [200, 201, 400, 401, 403, 404, 409, 500]
      \<and> (if 400 \<le> fst r then is_error_object (snd r) else True))"

text \<open>
  What the handlers write on failure: a \<open>gin.H\<close> with distinct keys and string
  values that holds an \<open>"error"\<close> entry, alone or together with a \<open>"details"\<close>
  entry, or the single entry \<open>"message"\<close> of a 404.  The order of the entries plays
  no part.
\<close>

fun is_string_entry :: "string \<times> 'a jv \<Rightarrow> bool" where
  "is_string_entry (k, JStr msg) = True"
| "is_string_entry _ = False"

definition is_failure_object :: "nat \<Rightarrow> 'a body \<Rightarrow> bool" where
  "is_failure_object code b =
     (case b of
        H entries \<Rightarrow>
          distinct (map fst entries)
          \<and> list_all is_string_entry entries
          \<and> ((''error'' \<in> set (map fst entries)
               \<and> list_all (\<lambda>k. k = ''error'' \<or> k = ''details'') (map fst entries))
              \<or> (map fst entries = [''message''] \<and> code = StatusNotFound))
      | _ \<Rightarrow> False)"

text \<open>
  A response as it goes out: \<open>encoding/json\<close> writes the entries of a map with the
  keys sorted (byte-wise).
\<close>

definition sent :: "nat \<times> 'a body \<Rightarrow> nat \<times> 'a body" where
  "sent r = (case snd r of H entries \<Rightarrow> (fst r, H (sort_key fst entries)) | _ \<Rightarrow> r)"

definition written_response :: "nat \<times> 'a body \<Rightarrow> bool" where
  "written_response r =
     (fst r \<in> set [200, 201, 400, 403, 404, 409, 500]
      \<and> (if 400 \<le> fst r then is_failure_object (fst r) (snd r) else True))"

section \<open>A small backend, for concrete requests\<close>

text \<open>
  An in-memory backend with an audit table and a users table, an audit writer that
  appends the message, one that always fails, and services over them.  They stand for
  the packages \<open>utilities\<close> and \<open>services\<close> when a handler is run on a concrete
  request.
\<close>

record backend =
  audit_table :: "string list"
  users_table :: "User list"

definition ErrRecordNotFound :: error where
  "ErrRecordNotFound = GoError True ''record not found''"

definition refused :: error where
  "refused = GoError False ''connection refused''"

definition memory_Log :: "('b, backend) LogUtil" where
  "memory_Log c msg w = (None, w\<lparr>audit_table := audit_table w @ [msg]\<rparr>)"

definition broken_Log :: "('b, 'w) LogUtil" where
  "broken_Log c msg w = (Some (GoError False ''audit table unavailable''), w)"

definition grant_all :: "('b, 'w) AuthorizationUtil" where
  "grant_all c p w = True"

definition deny_all :: "('b, 'w) AuthorizationUtil" where
  "deny_all c p w = False"

definition request_7 :: "error + 'b \<Rightarrow> 'b gin_Context" where
  "request_7 bound =
     \<lparr>Param = (\<lambda>k. if k = ''id'' then ''7'' else []),
      Query = (\<lambda>k. if k = ''id'' then ''7'' else if k = ''email'' then ''ana@totes.co'' else []),
      GetHeader = (\<lambda>k. if k = ''Username'' then ''ana@totes.co'' else []),
      ShouldBindJSON = bound\<rparr>"

definition ana :: User where
  "ana = \<lparr>User.ID = 7, User.Email = ''ana@totes.co'', User.Password = ''s3cret'',
          User.UserTypeID = 1, User.UserStateTypeID = 1\<rparr>"

definition one_user :: backend where
  "one_user = \<lparr>audit_table = [], users_table = [ana]\<rparr>"

definition no_users :: backend where
  "no_users = \<lparr>audit_table = [], users_table = []\<rparr>"

definition memory_UserService :: "backend UserService" where
  "memory_UserService =
     \<lparr>GetUserByID = (\<lambda>id w.
        ((case find (\<lambda>u. Itoa (User.ID u) = id) (users_table w) of
            None \<Rightarrow> (None, Some ErrRecordNotFound)
          | Some u \<Rightarrow> (Some u, None)), w)),
      GetAllUsers = (\<lambda>w. ((users_table w, None), w)),
      SearchUsersByID = (\<lambda>q w. ((filter (\<lambda>u. Itoa (User.ID u) = q) (users_table w), None), w)),
      SearchUsersByEmail = (\<lambda>q w. ((filter (\<lambda>u. User.Email u = q) (users_table w), None), w)),
      UpdateUserState = (\<lambda>id st w.
        (case find (\<lambda>u. Itoa (User.ID u) = id) (users_table w) of
           None \<Rightarrow> ((None, Some ErrRecordNotFound), w)
         | Some u \<Rightarrow>
             ((Some (u\<lparr>User.UserStateTypeID := st\<rparr>), None),
              w\<lparr>users_table :=
                  map (\<lambda>v. if User.ID v = User.ID u then v\<lparr>User.UserStateTypeID := st\<rparr> else v)
                    (users_table w)\<rparr>))),
      GetUserByEmail = (\<lambda>e w.
        ((case find (\<lambda>u. User.Email u = e) (users_table w) of
            None \<Rightarrow> (None, Some ErrRecordNotFound)
          | Some u \<Rightarrow> (Some u, None)), w)),
      UpdateUser = (\<lambda>u w.
        ((u, None),
         w\<lparr>users_table := map (\<lambda>v. if User.ID v = User.ID u then u else v) (users_table w)\<rparr>)),
      CreateUser = (\<lambda>u w.
        (let u' = u\<lparr>User.ID := int (length (users_table w)) + 1\<rparr>
         in ((Some u', None), w\<lparr>users_table := users_table w @ [u']\<rparr>)))\<rparr>"

definition UserController_memory ::
  "('b, backend) AuthorizationUtil \<Rightarrow> ('b, backend) LogUtil
     \<Rightarrow> (backend UserService, 'b, backend) Controller" where
  "UserController_memory au lg = \<lparr>Service = memory_UserService, Auth = au, Log = lg\<rparr>"

definition new_user :: CreateUserDTO where
  "new_user = \<lparr>CreateUserDTO.Email = ''luis@totes.co'', CreateUserDTO.Password = ''pw'',
               CreateUserDTO.UserTypeID = 2, CreateUserDTO.UserStateID = 1\<rparr>"

definition changed_user :: UpdateUserDTO where
  "changed_user = \<lparr>UpdateUserDTO.Email = ''ana@totes.co'', UpdateUserDTO.Password = ''n3w'',
                   UpdateUserDTO.UserTypeID = 1, UpdateUserDTO.UserStateID = 2\<rparr>"

text \<open>Services of the other controllers, each with one fixed answer.\<close>

definition AppointmentService_answering ::
  "'e \<Rightarrow> 'e list \<Rightarrow> error option \<Rightarrow> ('e, 'w) AppointmentService" where
  "AppointmentService_answering one found err =
     \<lparr>GetAppointmentByID = (\<lambda>id w. ((one, err), w)),
      GetAllAppointments = (\<lambda>w. ((found, err), w)),
      SearchAppointmentsByID = (\<lambda>q w. ((found, err), w))\<rparr>"

definition AdditionalExpenseService_answering ::
  "'e list \<Rightarrow> error option \<Rightarrow> ('e, 'w) AdditionalExpenseService" where
  "AdditionalExpenseService_answering found err =
     \<lparr>GetAdditionalExpenseByID = (\<lambda>id w. ((case found of [] \<Rightarrow> None | e # _ \<Rightarrow> Some e, err), w)),
      GetAllAdditionalExpenses = (\<lambda>w. ((found, err), w))\<rparr>"

definition UserStateTypeService_answering ::
  "'e \<Rightarrow> error option \<Rightarrow> ('e, 'w) UserStateTypeService" where
  "UserStateTypeService_answering found err =
     \<lparr>GetUserStateTypeByID = (\<lambda>id w. ((found, err), w)),
      GetAllUserStateTypes = (\<lambda>w. (([found], err), w))\<rparr>"

definition BillingService_answering :: "'f \<Rightarrow> error option \<Rightarrow> ('i, 'f, 'w) BillingService" where
  "BillingService_answering subtotal err = \<lparr>CalculateSubtotal = (\<lambda>itemsDTO w. ((subtotal, err), w))\<rparr>"

definition RoleService_answering :: "Role option \<Rightarrow> 'w RoleService" where
  "RoleService_answering found =
     \<lparr>GetRoleByID = (\<lambda>id w. ((found, None), w)),
      GetRolePermissions = (\<lambda>id w. (([1, 2], None), w))\<rparr>"

definition EmployeeService_answering :: "Employee option \<Rightarrow> 'w EmployeeService" where
  "EmployeeService_answering existing =
     \<lparr>GetEmployeeByID = (\<lambda>id w.
        ((existing, if existing = None then Some ErrRecordNotFound else None), w)),
      CreateEmployee = (\<lambda>e w. ((Some (e\<lparr>Employee.ID := 1\<rparr>), None), w))\<rparr>"

definition eva :: Employee where
  "eva = \<lparr>Employee.ID = 1, Employee.Names = ''Eva'', Employee.LastNames = ''Rojas'',
          Employee.PersonalID = ''1098'', Employee.Address = ''Cra 27'',
          Employee.PhoneNumbers = ''555'', Employee.UserID = 7, Employee.IdentifierTypeID = 1\<rparr>"

definition eva_again :: "int \<Rightarrow> CreateEmployeeDTO" where
  "eva_again userID =
     \<lparr>CreateEmployeeDTO.Names = ''Eva'', CreateEmployeeDTO.LastNames = ''Rojas'',
      CreateEmployeeDTO.PersonalID = ''1098'', CreateEmployeeDTO.Address = ''Cra 27'',
      CreateEmployeeDTO.PhoneNumbers = ''555'', CreateEmployeeDTO.UserID = userID,
      CreateEmployeeDTO.IdentifierTypeID = 1\<rparr>"

definition ItemService_answering :: "'f Item list \<Rightarrow> error option \<Rightarrow> ('f, 'w) ItemService" where
  "ItemService_answering found err =
     \<lparr>GetItemByID = (\<lambda>id w. ((case found of [] \<Rightarrow> None | i # _ \<Rightarrow> Some i, err), w)),
      GetAllItems = (\<lambda>w. ((found, err), w))\<rparr>"

definition tyre :: "nat Item" where
  "tyre = \<lparr>Item.ID = 3, Item.Name = ''tyre'', Item.Description = ''R15'', Item.Stock = 4,
           Item.SellingPrice = 120, Item.PurchasePrice = 90, Item.ItemState = True,
           Item.ItemTypeID = 1, Item.AdditionalExpenses = [\<lparr>AdditionalExpense.ID = 5\<rparr>]\<rparr>"

section \<open>The registry and principals of a small deployment\<close>

definition registry_3 :: PermissionRegistry where
  "registry_3 = [(''PERMISSION_GET_USER_BY_ID'', 1), (''PERMISSION_GET_ALL_USERS'', 2),
                 (''PERMISSION_CREATE_USER'', 3)]"

definition clerk :: Principal where
  "clerk = \<lparr>Identifier = ''ana@totes.co'',
            Type = \<lparr>TypeName = ''clerk'',
                    Roles = [\<lparr>RoleName = ''reader'', RolePermissions = [1]\<rparr>,
                             \<lparr>RoleName = ''lister'', RolePermissions = [1, 2]\<rparr>]\<rparr>\<rparr>"

section \<open>Unfolding a handler\<close>

lemmas handler_simps =
  RegisterLog_def RegisterLog_ignored_def CheckPermission_def invoke_def JSON_def
  nil_dereference_def init_def Let_def split_beta statuses_def

lemma nat_digits_one: "n < 10 \<Longrightarrow> nat_digits n = [''0123456789'' ! n]"
  by (simp add: nat_digits.simps)

lemma nat_digits_more:
  "\<not> n < 10 \<Longrightarrow> nat_digits n = nat_digits (n div 10) @ [''0123456789'' ! (n mod 10)]"
  by (subst nat_digits.simps) simp

lemmas fixture_simps =
  memory_Log_def broken_Log_def grant_all_def deny_all_def request_7_def
  ErrRecordNotFound_def refused_def no_users_def one_user_def ana_def UserController_memory_def
  memory_UserService_def new_user_def changed_user_def Itoa_def nat_digits_one nat_digits_more

section \<open>A failure body in any order of its entries\<close>

lemma is_failure_object_any_order:
  assumes "mset entries' = mset entries"
  shows "is_failure_object code (H entries') = is_failure_object code (H entries)"
proof -
  have keys: "mset (map fst entries') = mset (map fst entries)"
    using assms by (metis mset_map)
  have "set entries' = set entries"
    using assms by (rule mset_eq_setD)
  moreover have "set (map fst entries') = set (map fst entries)"
    using keys by (rule mset_eq_setD)
  moreover have "distinct (map fst entries') = distinct (map fst entries)"
    using keys by (rule mset_eq_imp_distinct_iff)
  moreover have "(map fst entries' = [''message'']) = (map fst entries = [''message''])"
    using keys by (metis mset_single_iff_right mset.simps(1) mset.simps(2) add_mset_eq_single)
  ultimately show ?thesis
    by (simp add: is_failure_object_def list_all_iff)
qed

lemma written_response_any_order:
  assumes "mset entries' = mset entries"
  shows "written_response (code, H entries') = written_response (code, H entries)"
  using is_failure_object_any_order [OF assms, of code] by (simp add: written_response_def)

lemma written_response_keys_sorted:
  "written_response
     (StatusBadRequest, H [(''details'', JStr err), (''error'', JStr ''Invalid JSON format'')])"
  by (simp add: written_response_def is_failure_object_def)

lemma sent_details_first:
  "sent (StatusBadRequest, H [(''error'', JStr ''Invalid JSON format''), (''details'', JStr err)])
     = (StatusBadRequest, H [(''details'', JStr err), (''error'', JStr ''Invalid JSON format'')])"
  by (simp add: sent_def less_eq_char_def less_char_def)

lemma written_response_sent: "written_response (sent r) = written_response r"
proof (cases r)
  case (Pair code b)
  show ?thesis
  proof (cases b)
    case (H entries)
    have "mset (sort_key fst entries) = mset entries"
      by simp
    then show ?thesis
      using Pair H written_response_any_order [of "sort_key fst entries" entries code]
      by (simp add: sent_def)
  qed (simp_all add: Pair sent_def)
qed

lemma list_all_written_response_sent:
  "list_all written_response (map sent rs) = list_all written_response rs"
  by (induction rs) (simp_all add: written_response_sent)

section \<open>Every handler: the attempt log and the responses written\<close>

text \<open>
  For each handler that writes its attempt to the audit log first: that log is the first
  collaborator call, and when it fails the handler answers 500 and calls nothing else.
  For every handler: each response it writes has one of the status codes 200, 201, 400,
  403, 404, 409, 500, and a failure response is a \<open>gin.H\<close> that holds an \<open>"error"\<close>
  entry (or the single \<open>"message"\<close> entry of a 404).
\<close>

lemma UserController_GetUserByID_audit:
  "audit_before_action (''Attempting to retrieve user with ID: '' @ Param c ''id'')
     (fst (Log uc c (''Attempting to retrieve user with ID: '' @ Param c ''id'') w))
     (UserController_GetUserByID uc c (init w))"
  by (simp add: audit_before_action_def UserController_GetUserByID_def handler_simps
      split: option.splits sum.splits)

lemma UserController_GetAllUsers_audit:
  "audit_before_action (''Attempting to retrieve all users'')
     (fst (Log uc c (''Attempting to retrieve all users'') w))
     (UserController_GetAllUsers uc c (init w))"
  by (simp add: audit_before_action_def UserController_GetAllUsers_def handler_simps
      split: option.splits sum.splits)

lemma UserController_SearchUsersByID_audit:
  "audit_before_action (''Attempting to search users by ID with query: '' @ Query c ''id'')
     (fst (Log uc c (''Attempting to search users by ID with query: '' @ Query c ''id'') w))
     (UserController_SearchUsersByID uc c (init w))"
  by (simp add: audit_before_action_def UserController_SearchUsersByID_def handler_simps
      split: option.splits sum.splits)

lemma UserController_SearchUsersByEmail_audit:
  "audit_before_action (''Attempting to search users by email with query: '' @ Query c ''email'')
     (fst (Log uc c (''Attempting to search users by email with query: '' @ Query c ''email'') w))
     (UserController_SearchUsersByEmail uc c (init w))"
  by (simp add: audit_before_action_def UserController_SearchUsersByEmail_def handler_simps
      split: option.splits sum.splits)

lemma UserController_UpdateUserState_audit:
  "audit_before_action (''Attempting to update user state for ID: '' @ Param cs ''id'')
     (fst (Log ucs cs (''Attempting to update user state for ID: '' @ Param cs ''id'') w))
     (UserController_UpdateUserState ucs cs (init w))"
  by (simp add: audit_before_action_def UserController_UpdateUserState_def handler_simps
      split: option.splits sum.splits)

lemma UserController_UpdateUser_audit:
  "audit_before_action (''Attempting to update user with ID: '' @ Param cu ''id'')
     (fst (Log ucu cu (''Attempting to update user with ID: '' @ Param cu ''id'') w))
     (UserController_UpdateUser ucu cu (init w))"
  by (simp add: audit_before_action_def UserController_UpdateUser_def handler_simps
      split: option.splits sum.splits)

lemma UserController_CreateUser_audit:
  "audit_before_action (''Attempting to create new user'')
     (fst (Log ucc cc (''Attempting to create new user'') w))
     (UserController_CreateUser ucc cc (init w))"
  by (simp add: audit_before_action_def UserController_CreateUser_def handler_simps
      split: option.splits sum.splits)

lemma AppointmentController_GetAppointmentByID_audit:
  "audit_before_action (''Attempting to get appointment by ID'')
     (fst (Log ac c (''Attempting to get appointment by ID'') w))
     (AppointmentController_GetAppointmentByID ac c (init w))"
  by (simp add: audit_before_action_def AppointmentController_GetAppointmentByID_def handler_simps
      split: option.splits sum.splits)

lemma AppointmentController_GetAllAppointments_audit:
  "audit_before_action (''Attempting to retrieve all appointments'')
     (fst (Log ac c (''Attempting to retrieve all appointments'') w))
     (AppointmentController_GetAllAppointments ac c (init w))"
  by (simp add: audit_before_action_def AppointmentController_GetAllAppointments_def handler_simps
      split: option.splits sum.splits)

lemma AppointmentController_SearchAppointmentsByID_audit:
  "audit_before_action (''Attempting to search appointments by ID'')
     (fst (Log ac c (''Attempting to search appointments by ID'') w))
     (AppointmentController_SearchAppointmentsByID ac c (init w))"
  by (simp add: audit_before_action_def AppointmentController_SearchAppointmentsByID_def handler_simps
      split: option.splits sum.splits)

lemma AdditionalExpenseController_GetAdditionalExpenseByID_audit:
  "audit_before_action (''Attempting to retrieve AdditionalExpense with ID: '' @ Param c ''id'')
     (fst (Log aec c (''Attempting to retrieve AdditionalExpense with ID: '' @ Param c ''id'') w))
     (AdditionalExpenseController_GetAdditionalExpenseByID aec c (init w))"
  by (simp add: audit_before_action_def AdditionalExpenseController_GetAdditionalExpenseByID_def handler_simps
      split: option.splits sum.splits)

lemma AdditionalExpenseController_GetAllAdditionalExpenses_audit:
  "audit_before_action (''Attempting to retrieve all AdditionalExpenses'')
     (fst (Log aec c (''Attempting to retrieve all AdditionalExpenses'') w))
     (AdditionalExpenseController_GetAllAdditionalExpenses aec c (init w))"
  by (simp add: audit_before_action_def AdditionalExpenseController_GetAllAdditionalExpenses_def handler_simps
      split: option.splits sum.splits)

lemma EmployeeController_CreateEmployee_audit:
  "audit_before_action (''Attempting to create an employee'')
     (fst (Log ec ce (''Attempting to create an employee'') w))
     (EmployeeController_CreateEmployee ec ce (init w))"
  by (simp add: audit_before_action_def EmployeeController_CreateEmployee_def handler_simps
      split: option.splits sum.splits)

lemma CustomerController_SearchCustomersByID_audit:
  "audit_before_action (''Attempting to search customers by ID'')
     (fst (Log cuc c (''Attempting to search customers by ID'') w))
     (CustomerController_SearchCustomersByID cuc c (init w))"
  by (simp add: audit_before_action_def CustomerController_SearchCustomersByID_def handler_simps
      split: option.splits sum.splits)

lemma ItemController_GetItemByID_audit:
  "audit_before_action (''Fetching item by ID: '' @ Param c ''id'')
     (fst (Log ic c (''Fetching item by ID: '' @ Param c ''id'') w))
     (ItemController_GetItemByID ic c (init w))"
  by (simp add: audit_before_action_def ItemController_GetItemByID_def handler_simps
      split: option.splits sum.splits)

lemma ItemController_GetAllItems_audit:
  "audit_before_action (''Fetching all items'')
     (fst (Log ic c (''Fetching all items'') w))
     (ItemController_GetAllItems ic c (init w))"
  by (simp add: audit_before_action_def ItemController_GetAllItems_def handler_simps
      split: option.splits sum.splits)

lemma UserController_GetUserByID_written:
  "list_all written_response (written (UserController_GetUserByID uc c (init w)))"
  by (simp add: written_response_def is_failure_object_def UserController_GetUserByID_def handler_simps
      split: option.splits sum.splits)

lemma UserController_GetAllUsers_written:
  "list_all written_response (written (UserController_GetAllUsers uc c (init w)))"
  by (simp add: written_response_def is_failure_object_def UserController_GetAllUsers_def handler_simps
      split: option.splits sum.splits)

lemma UserController_SearchUsersByID_written:
  "list_all written_response (written (UserController_SearchUsersByID uc c (init w)))"
  by (simp add: written_response_def is_failure_object_def UserController_SearchUsersByID_def handler_simps
      split: option.splits sum.splits)

lemma UserController_SearchUsersByEmail_written:
  "list_all written_response (written (UserController_SearchUsersByEmail uc c (init w)))"
  by (simp add: written_response_def is_failure_object_def UserController_SearchUsersByEmail_def handler_simps
      split: option.splits sum.splits)

lemma UserController_UpdateUserState_written:
  "list_all written_response (written (UserController_UpdateUserState ucs cs (init w)))"
  by (simp add: written_response_def is_failure_object_def UserController_UpdateUserState_def handler_simps
      split: option.splits sum.splits)

lemma UserController_UpdateUser_written:
  "list_all written_response (written (UserController_UpdateUser ucu cu (init w)))"
  by (simp add: written_response_def is_failure_object_def UserController_UpdateUser_def handler_simps
      split: option.splits sum.splits)

lemma UserController_CreateUser_written:
  "list_all written_response (written (UserController_CreateUser ucc cc (init w)))"
  by (simp add: written_response_def is_failure_object_def UserController_CreateUser_def handler_simps
      split: option.splits sum.splits)

lemma AppointmentController_GetAppointmentByID_written:
  "list_all written_response (written (AppointmentController_GetAppointmentByID ac c (init w)))"
  by (simp add: written_response_def is_failure_object_def AppointmentController_GetAppointmentByID_def handler_simps
      split: option.splits sum.splits)

lemma AppointmentController_GetAllAppointments_written:
  "list_all written_response (written (AppointmentController_GetAllAppointments ac c (init w)))"
  by (simp add: written_response_def is_failure_object_def AppointmentController_GetAllAppointments_def handler_simps
      split: option.splits sum.splits)

lemma AppointmentController_SearchAppointmentsByID_written:
  "list_all written_response (written (AppointmentController_SearchAppointmentsByID ac c (init w)))"
  by (simp add: written_response_def is_failure_object_def AppointmentController_SearchAppointmentsByID_def handler_simps
      split: option.splits sum.splits)

lemma AdditionalExpenseController_GetAdditionalExpenseByID_written:
  "list_all written_response (written (AdditionalExpenseController_GetAdditionalExpenseByID aec c (init w)))"
  by (simp add: written_response_def is_failure_object_def AdditionalExpenseController_GetAdditionalExpenseByID_def handler_simps
      split: option.splits sum.splits)

lemma AdditionalExpenseController_GetAllAdditionalExpenses_written:
  "list_all written_response (written (AdditionalExpenseController_GetAllAdditionalExpenses aec c (init w)))"
  by (simp add: written_response_def is_failure_object_def AdditionalExpenseController_GetAllAdditionalExpenses_def handler_simps
      split: option.splits sum.splits)

lemma EmployeeController_CreateEmployee_written:
  "list_all written_response (written (EmployeeController_CreateEmployee ec ce (init w)))"
  by (simp add: written_response_def is_failure_object_def EmployeeController_CreateEmployee_def handler_simps
      split: option.splits sum.splits)

lemma CustomerController_SearchCustomersByID_written:
  "list_all written_response (written (CustomerController_SearchCustomersByID cuc c (init w)))"
  by (simp add: written_response_def is_failure_object_def CustomerController_SearchCustomersByID_def handler_simps
      split: option.splits sum.splits)

lemma ItemController_GetItemByID_written:
  "list_all written_response (written (ItemController_GetItemByID ic c (init w)))"
  by (simp add: written_response_def is_failure_object_def ItemController_GetItemByID_def handler_simps
      split: option.splits sum.splits)

lemma ItemController_GetAllItems_written:
  "list_all written_response (written (ItemController_GetAllItems ic c (init w)))"
  by (simp add: written_response_def is_failure_object_def ItemController_GetAllItems_def handler_simps
      split: option.splits sum.splits)

lemma UserStateTypeController_GetUserStateTypeByID_written:
  "list_all written_response (written (UserStateTypeController_GetUserStateTypeByID ustc c (init w)))"
  by (simp add: written_response_def is_failure_object_def UserStateTypeController_GetUserStateTypeByID_def handler_simps
      split: option.splits sum.splits)

lemma UserStateTypeController_GetAllUserStateTypes_written:
  "list_all written_response (written (UserStateTypeController_GetAllUserStateTypes ustc c (init w)))"
  by (simp add: written_response_def is_failure_object_def UserStateTypeController_GetAllUserStateTypes_def handler_simps
      split: option.splits sum.splits)

lemma BillingController_CalculateSubtotal_written:
  "list_all written_response (written (BillingController_CalculateSubtotal bc cb (init w)))"
  by (simp add: written_response_def is_failure_object_def BillingController_CalculateSubtotal_def handler_simps
      split: option.splits sum.splits)

lemma RoleController_GetRoleByID_written:
  "list_all written_response (written (RoleController_GetRoleByID Sscanf rc c (init w)))"
  by (simp add: written_response_def is_failure_object_def RoleController_GetRoleByID_def handler_simps
      split: option.splits sum.splits)

lemma UserStateTypeController_GetUserStateTypeByID_check_first:
  "take 1 (calls (UserStateTypeController_GetUserStateTypeByID ustc c (init w))) = [CallCheckPermission PERMISSION_GET_USER_STATE_TYPE_BY_ID]"
  by (simp add: UserStateTypeController_GetUserStateTypeByID_def handler_simps)

lemma UserStateTypeController_GetUserStateTypeByID_audit_failure:
  "Auth ustc c PERMISSION_GET_USER_STATE_TYPE_BY_ID w
      \<and> \<not> audit_ok (Log ustc) c (''Attempting to retrieve user state type with ID: '' @ Param c ''id'') w
    \<longrightarrow> calls (UserStateTypeController_GetUserStateTypeByID ustc c (init w))
          = [CallCheckPermission PERMISSION_GET_USER_STATE_TYPE_BY_ID, CallRegisterLog (''Attempting to retrieve user state type with ID: '' @ Param c ''id'')]
        \<and> statuses (UserStateTypeController_GetUserStateTypeByID ustc c (init w)) = [StatusInternalServerError]"
  by (simp add: UserStateTypeController_GetUserStateTypeByID_def handler_simps)

lemma UserStateTypeController_GetAllUserStateTypes_check_first:
  "take 1 (calls (UserStateTypeController_GetAllUserStateTypes ustc c (init w))) = [CallCheckPermission PERMISSION_GET_ALL_USER_STATE_TYPES]"
  by (simp add: UserStateTypeController_GetAllUserStateTypes_def handler_simps)

lemma UserStateTypeController_GetAllUserStateTypes_audit_failure:
  "Auth ustc c PERMISSION_GET_ALL_USER_STATE_TYPES w
      \<and> \<not> audit_ok (Log ustc) c (''Attempting to retrieve all user state types'') w
    \<longrightarrow> calls (UserStateTypeController_GetAllUserStateTypes ustc c (init w))
          = [CallCheckPermission PERMISSION_GET_ALL_USER_STATE_TYPES, CallRegisterLog (''Attempting to retrieve all user state types'')]
        \<and> statuses (UserStateTypeController_GetAllUserStateTypes ustc c (init w)) = [StatusInternalServerError]"
  by (simp add: UserStateTypeController_GetAllUserStateTypes_def handler_simps)

lemma BillingController_CalculateSubtotal_no_audit:
  "\<not> list_ex is_log (calls (BillingController_CalculateSubtotal bc cb (init w)))"
  by (simp add: BillingController_CalculateSubtotal_def handler_simps split: option.splits sum.splits)

lemma RoleController_GetRoleByID_no_audit:
  "\<not> list_ex is_log (calls (RoleController_GetRoleByID Sscanf rc c (init w)))"
  by (simp add: RoleController_GetRoleByID_def handler_simps split: option.splits sum.splits)

section \<open>C1: a denied request\<close>

text \<open>
  C1.  When the authorization check returns false for the operation's permission id, the
  controller logs the denial, writes an explicit 403 response and ends the request.
  Run for a principal to whom every permission is denied, on a backend whose audit
  writer works: \<open>AppointmentController.GetAppointmentByID\<close> logs the attempt, checks,
  logs the denial and returns without writing a response;
  \<open>AdditionalExpenseController.GetAdditionalExpenseByID\<close> does the same, where
  \<open>GetAllAdditionalExpenses\<close> of the same controller writes the 403;
  \<open>RoleController.GetRoleByID\<close> makes the check and returns, with no log and no
  response.
\<close>

theorem C1_denied_without_response:
  "written (AppointmentController_GetAppointmentByID
      \<lparr>Service = AppointmentService_answering ''9:00'' [] None, Auth = deny_all, Log = memory_Log\<rparr>
      (request_7 (Inr ())) (init no_users)) = []
   \<and> calls (AppointmentController_GetAppointmentByID
      \<lparr>Service = AppointmentService_answering ''9:00'' [] None, Auth = deny_all, Log = memory_Log\<rparr>
      (request_7 (Inr ())) (init no_users))
     = [CallRegisterLog ''Attempting to get appointment by ID'',
        CallCheckPermission PERMISSION_GET_APPOINTMENT_BY_ID,
        CallRegisterLog ''Access denied for GetAppointmentByID'']
   \<and> written (AdditionalExpenseController_GetAdditionalExpenseByID
      \<lparr>Service = AdditionalExpenseService_answering [''toll''] None, Auth = deny_all,
       Log = memory_Log\<rparr>
      (request_7 (Inr ())) (init no_users)) = []
   \<and> written (AdditionalExpenseController_GetAllAdditionalExpenses
      \<lparr>Service = AdditionalExpenseService_answering [''toll''] None, Auth = deny_all,
       Log = memory_Log\<rparr>
      (request_7 (Inr ())) (init no_users)) = [(StatusForbidden, error_body ''Permission denied'')]
   \<and> written (RoleController_GetRoleByID (\<lambda>s. (7, None))
      \<lparr>Service = RoleService_answering None, Auth = deny_all\<rparr>
      (request_7 (Inr ())) (init no_users)) = []
   \<and> calls (RoleController_GetRoleByID (\<lambda>s. (7, None))
      \<lparr>Service = RoleService_answering None, Auth = deny_all\<rparr>
      (request_7 (Inr ())) (init no_users)) = [CallCheckPermission PERMISSION_GET_ROLE_BY_ID]"
  by (simp add: AppointmentController_GetAppointmentByID_def
      AdditionalExpenseController_GetAdditionalExpenseByID_def
      AdditionalExpenseController_GetAllAdditionalExpenses_def RoleController_GetRoleByID_def
      handler_simps fixture_simps)

text \<open>
  The same for every audit writer, authorization utility and service: when the attempt
  is logged and the check denies, these two handlers write no response.
\<close>

lemma GetAppointmentByID_denied:
  "audit_ok (Log ac) c ''Attempting to get appointment by ID'' w
   \<Longrightarrow> \<not> Auth ac c PERMISSION_GET_APPOINTMENT_BY_ID
           (audited (Log ac) c ''Attempting to get appointment by ID'' w)
   \<Longrightarrow> written (AppointmentController_GetAppointmentByID ac c (init w)) = []
       \<and> calls (AppointmentController_GetAppointmentByID ac c (init w))
           = [CallRegisterLog ''Attempting to get appointment by ID'',
              CallCheckPermission PERMISSION_GET_APPOINTMENT_BY_ID,
              CallRegisterLog ''Access denied for GetAppointmentByID'']"
  by (simp add: AppointmentController_GetAppointmentByID_def handler_simps)

lemma GetAdditionalExpenseByID_denied:
  "audit_ok (Log aec) c (''Attempting to retrieve AdditionalExpense with ID: '' @ Param c ''id'') w
   \<Longrightarrow> \<not> Auth aec c PERMISSION_GET_ADDITIONAL_EXPENSE_BY_ID
           (audited (Log aec) c
              (''Attempting to retrieve AdditionalExpense with ID: '' @ Param c ''id'') w)
   \<Longrightarrow> written (AdditionalExpenseController_GetAdditionalExpenseByID aec c (init w)) = []"
  by (simp add: AdditionalExpenseController_GetAdditionalExpenseByID_def handler_simps)

section \<open>C2: audit before action\<close>

text \<open>
  C2 as stated: in every controller operation the attempt is logged before the
  authorization check and the service call, and a failing \<open>RegisterLog\<close> ends the
  request with 500 before either runs.  \<open>UserStateTypeController.GetUserStateTypeByID\<close>
  checks the permission first and logs the attempt after it, so with a failing audit
  writer the check has run; \<open>BillingController.CalculateSubtotal\<close> checks and calls
  its service with no audit log at all.
\<close>

theorem C2_counterexample:
  "calls (UserStateTypeController_GetUserStateTypeByID
      \<lparr>Service = UserStateTypeService_answering ''active'' None, Auth = grant_all,
       Log = broken_Log\<rparr>
      (request_7 (Inr ())) (init no_users))
     = [CallCheckPermission PERMISSION_GET_USER_STATE_TYPE_BY_ID,
        CallRegisterLog ''Attempting to retrieve user state type with ID: 7'']
   \<and> \<not> audit_before_action ''Attempting to retrieve user state type with ID: 7''
        (fst (broken_Log (request_7 (Inr ()))
                ''Attempting to retrieve user state type with ID: 7'' no_users))
        (UserStateTypeController_GetUserStateTypeByID
          \<lparr>Service = UserStateTypeService_answering ''active'' None, Auth = grant_all,
           Log = broken_Log\<rparr>
          (request_7 (Inr ())) (init no_users))
   \<and> calls (BillingController_CalculateSubtotal
        \<lparr>Service = BillingService_answering (0 :: nat) None, Auth = grant_all\<rparr>
        (request_7 (Inr [()])) (init no_users))
     = [CallCheckPermission PERMISSION_CALCULATE_SUBTOTAL,
        CallService ''BillingService.CalculateSubtotal'']"
  by (simp add: UserStateTypeController_GetUserStateTypeByID_def
      UserStateTypeService_answering_def BillingController_CalculateSubtotal_def
      BillingService_answering_def audit_before_action_def handler_simps fixture_simps)

text \<open>
  C2, amended.  In the handlers of the User, Appointment, AdditionalExpense, Employee,
  Customer and Item controllers the attempt log is the first collaborator call, and when
  it returns an error the controller answers 500 and neither the authorization check nor
  a service operation runs.  The two handlers of \<open>UserStateTypeController\<close> make the
  authorization check first; when the check allows and the attempt log then fails, they
  answer 500 and no service operation runs.  \<open>BillingController.CalculateSubtotal\<close>
  and \<open>RoleController.GetRoleByID\<close> of \<open>controllers/role_controller.go\<close> write no
  audit log.
\<close>

theorem C2_audit_before_action:
  "audit_before_action (''Attempting to retrieve user with ID: '' @ Param c ''id'')
     (fst (Log uc c (''Attempting to retrieve user with ID: '' @ Param c ''id'') w))
     (UserController_GetUserByID uc c (init w))
   \<and> audit_before_action (''Attempting to retrieve all users'')
     (fst (Log uc c (''Attempting to retrieve all users'') w))
     (UserController_GetAllUsers uc c (init w))
   \<and> audit_before_action (''Attempting to search users by ID with query: '' @ Query c ''id'')
     (fst (Log uc c (''Attempting to search users by ID with query: '' @ Query c ''id'') w))
     (UserController_SearchUsersByID uc c (init w))
   \<and> audit_before_action (''Attempting to search users by email with query: '' @ Query c ''email'')
     (fst (Log uc c (''Attempting to search users by email with query: '' @ Query c ''email'') w))
     (UserController_SearchUsersByEmail uc c (init w))
   \<and> audit_before_action (''Attempting to update user state for ID: '' @ Param cs ''id'')
     (fst (Log ucs cs (''Attempting to update user state for ID: '' @ Param cs ''id'') w))
     (UserController_UpdateUserState ucs cs (init w))
   \<and> audit_before_action (''Attempting to update user with ID: '' @ Param cu ''id'')
     (fst (Log ucu cu (''Attempting to update user with ID: '' @ Param cu ''id'') w))
     (UserController_UpdateUser ucu cu (init w))
   \<and> audit_before_action (''Attempting to create new user'')
     (fst (Log ucc cc (''Attempting to create new user'') w))
     (UserController_CreateUser ucc cc (init w))
   \<and> audit_before_action (''Attempting to get appointment by ID'')
     (fst (Log ac c (''Attempting to get appointment by ID'') w))
     (AppointmentController_GetAppointmentByID ac c (init w))
   \<and> audit_before_action (''Attempting to retrieve all appointments'')
     (fst (Log ac c (''Attempting to retrieve all appointments'') w))
     (AppointmentController_GetAllAppointments ac c (init w))
   \<and> audit_before_action (''Attempting to search appointments by ID'')
     (fst (Log ac c (''Attempting to search appointments by ID'') w))
     (AppointmentController_SearchAppointmentsByID ac c (init w))
   \<and> audit_before_action (''Attempting to retrieve AdditionalExpense with ID: '' @ Param c ''id'')
     (fst (Log aec c (''Attempting to retrieve AdditionalExpense with ID: '' @ Param c ''id'') w))
     (AdditionalExpenseController_GetAdditionalExpenseByID aec c (init w))
   \<and> audit_before_action (''Attempting to retrieve all AdditionalExpenses'')
     (fst (Log aec c (''Attempting to retrieve all AdditionalExpenses'') w))
     (AdditionalExpenseController_GetAllAdditionalExpenses aec c (init w))
   \<and> audit_before_action (''Attempting to create an employee'')
     (fst (Log ec ce (''Attempting to create an employee'') w))
     (EmployeeController_CreateEmployee ec ce (init w))
   \<and> audit_before_action (''Attempting to search customers by ID'')
     (fst (Log cuc c (''Attempting to search customers by ID'') w))
     (CustomerController_SearchCustomersByID cuc c (init w))
   \<and> audit_before_action (''Fetching item by ID: '' @ Param c ''id'')
     (fst (Log ic c (''Fetching item by ID: '' @ Param c ''id'') w))
     (ItemController_GetItemByID ic c (init w))
   \<and> audit_before_action (''Fetching all items'')
     (fst (Log ic c (''Fetching all items'') w))
     (ItemController_GetAllItems ic c (init w))
   \<and> take 1 (calls (UserStateTypeController_GetUserStateTypeByID ustc c (init w))) = [CallCheckPermission PERMISSION_GET_USER_STATE_TYPE_BY_ID]
   \<and> (Auth ustc c PERMISSION_GET_USER_STATE_TYPE_BY_ID w
      \<and> \<not> audit_ok (Log ustc) c (''Attempting to retrieve user state type with ID: '' @ Param c ''id'') w
    \<longrightarrow> calls (UserStateTypeController_GetUserStateTypeByID ustc c (init w))
          = [CallCheckPermission PERMISSION_GET_USER_STATE_TYPE_BY_ID, CallRegisterLog (''Attempting to retrieve user state type with ID: '' @ Param c ''id'')]
        \<and> statuses (UserStateTypeController_GetUserStateTypeByID ustc c (init w)) = [StatusInternalServerError])
   \<and> take 1 (calls (UserStateTypeController_GetAllUserStateTypes ustc c (init w))) = [CallCheckPermission PERMISSION_GET_ALL_USER_STATE_TYPES]
   \<and> (Auth ustc c PERMISSION_GET_ALL_USER_STATE_TYPES w
      \<and> \<not> audit_ok (Log ustc) c (''Attempting to retrieve all user state types'') w
    \<longrightarrow> calls (UserStateTypeController_GetAllUserStateTypes ustc c (init w))
          = [CallCheckPermission PERMISSION_GET_ALL_USER_STATE_TYPES, CallRegisterLog (''Attempting to retrieve all user state types'')]
        \<and> statuses (UserStateTypeController_GetAllUserStateTypes ustc c (init w)) = [StatusInternalServerError])
   \<and> \<not> list_ex is_log (calls (BillingController_CalculateSubtotal bc cb (init w)))
   \<and> \<not> list_ex is_log (calls (RoleController_GetRoleByID Sscanf rc c (init w)))"
  by (intro conjI)
     (rule UserController_GetUserByID_audit,
      rule UserController_GetAllUsers_audit,
      rule UserController_SearchUsersByID_audit,
      rule UserController_SearchUsersByEmail_audit,
      rule UserController_UpdateUserState_audit,
      rule UserController_UpdateUser_audit,
      rule UserController_CreateUser_audit,
      rule AppointmentController_GetAppointmentByID_audit,
      rule AppointmentController_GetAllAppointments_audit,
      rule AppointmentController_SearchAppointmentsByID_audit,
      rule AdditionalExpenseController_GetAdditionalExpenseByID_audit,
      rule AdditionalExpenseController_GetAllAdditionalExpenses_audit,
      rule EmployeeController_CreateEmployee_audit,
      rule CustomerController_SearchCustomersByID_audit,
      rule ItemController_GetItemByID_audit,
      rule ItemController_GetAllItems_audit,
      rule UserStateTypeController_GetUserStateTypeByID_check_first,
      rule UserStateTypeController_GetUserStateTypeByID_audit_failure,
      rule UserStateTypeController_GetAllUserStateTypes_check_first,
      rule UserStateTypeController_GetAllUserStateTypes_audit_failure,
      rule BillingController_CalculateSubtotal_no_audit,
      rule RoleController_GetRoleByID_no_audit)

text \<open>The theorem at a concrete request.\<close>

theorem C2_audit_before_action_witness:
  "audit_before_action ''Attempting to create new user''
     (fst (Log (UserController_memory grant_all broken_Log) (request_7 (Inr new_user))
             ''Attempting to create new user'' one_user))
     (UserController_CreateUser (UserController_memory grant_all broken_Log)
        (request_7 (Inr new_user)) (init one_user))
   \<and> calls (UserStateTypeController_GetAllUserStateTypes
        \<lparr>Service = UserStateTypeService_answering ''active'' None, Auth = grant_all,
         Log = broken_Log\<rparr>
        (request_7 (Inr ())) (init one_user))
       = [CallCheckPermission PERMISSION_GET_ALL_USER_STATE_TYPES,
          CallRegisterLog ''Attempting to retrieve all user state types'']
   \<and> statuses (UserStateTypeController_GetAllUserStateTypes
        \<lparr>Service = UserStateTypeService_answering ''active'' None, Auth = grant_all,
         Log = broken_Log\<rparr>
        (request_7 (Inr ())) (init one_user)) = [StatusInternalServerError]
   \<and> calls (UserStateTypeController_GetUserStateTypeByID
        \<lparr>Service = UserStateTypeService_answering ''active'' None, Auth = grant_all,
         Log = broken_Log\<rparr>
        (request_7 (Inr ())) (init one_user))
       = [CallCheckPermission PERMISSION_GET_USER_STATE_TYPE_BY_ID,
          CallRegisterLog (''Attempting to retrieve user state type with ID: ''
                             @ Param (request_7 (Inr ())) ''id'')]
   \<and> statuses (UserStateTypeController_GetUserStateTypeByID
        \<lparr>Service = UserStateTypeService_answering ''active'' None, Auth = grant_all,
         Log = broken_Log\<rparr>
        (request_7 (Inr ())) (init one_user)) = [StatusInternalServerError]
   \<and> statuses (UserController_CreateUser (UserController_memory grant_all broken_Log)
        (request_7 (Inr new_user)) (init one_user)) = [StatusInternalServerError]
   \<and> calls (UserController_CreateUser (UserController_memory grant_all broken_Log)
        (request_7 (Inr new_user)) (init one_user))
       = [CallRegisterLog ''Attempting to create new user'']"
proof -
  note T = C2_audit_before_action
    [where ucc = "UserController_memory grant_all broken_Log"
       and cc = "request_7 (Inr new_user)" and w = one_user
       and ustc = "\<lparr>Service = UserStateTypeService_answering ''active'' None, Auth = grant_all,
                     Log = broken_Log\<rparr>"
       and c = "request_7 (Inr ())"]
  note U = T [THEN conjunct2, THEN conjunct2, THEN conjunct2, THEN conjunct2, THEN conjunct2,
              THEN conjunct2]
  note V = U [THEN conjunct2, THEN conjunct2, THEN conjunct2, THEN conjunct2, THEN conjunct2,
              THEN conjunct2, THEN conjunct2, THEN conjunct2, THEN conjunct2, THEN conjunct2]
  have 1: "audit_before_action ''Attempting to create new user''
     (fst (Log (UserController_memory grant_all broken_Log) (request_7 (Inr new_user))
             ''Attempting to create new user'' one_user))
     (UserController_CreateUser (UserController_memory grant_all broken_Log)
        (request_7 (Inr new_user)) (init one_user))"
    by (rule U [THEN conjunct1])
  have 2: "calls (UserStateTypeController_GetUserStateTypeByID
        \<lparr>Service = UserStateTypeService_answering ''active'' None, Auth = grant_all,
         Log = broken_Log\<rparr>
        (request_7 (Inr ())) (init one_user))
       = [CallCheckPermission PERMISSION_GET_USER_STATE_TYPE_BY_ID,
          CallRegisterLog (''Attempting to retrieve user state type with ID: ''
                             @ Param (request_7 (Inr ())) ''id'')]
   \<and> statuses (UserStateTypeController_GetUserStateTypeByID
        \<lparr>Service = UserStateTypeService_answering ''active'' None, Auth = grant_all,
         Log = broken_Log\<rparr>
        (request_7 (Inr ())) (init one_user)) = [StatusInternalServerError]"
    by (rule V [THEN conjunct2, THEN conjunct1, THEN mp]) (simp add: fixture_simps)
  have 3: "calls (UserStateTypeController_GetAllUserStateTypes
        \<lparr>Service = UserStateTypeService_answering ''active'' None, Auth = grant_all,
         Log = broken_Log\<rparr>
        (request_7 (Inr ())) (init one_user))
       = [CallCheckPermission PERMISSION_GET_ALL_USER_STATE_TYPES,
          CallRegisterLog ''Attempting to retrieve all user state types'']
   \<and> statuses (UserStateTypeController_GetAllUserStateTypes
        \<lparr>Service = UserStateTypeService_answering ''active'' None, Auth = grant_all,
         Log = broken_Log\<rparr>
        (request_7 (Inr ())) (init one_user)) = [StatusInternalServerError]"
    by (rule V [THEN conjunct2, THEN conjunct2, THEN conjunct2, THEN conjunct1, THEN mp])
       (simp add: fixture_simps)
  have 4: "statuses (UserController_CreateUser (UserController_memory grant_all broken_Log)
        (request_7 (Inr new_user)) (init one_user)) = [StatusInternalServerError]
   \<and> calls (UserController_CreateUser (UserController_memory grant_all broken_Log)
        (request_7 (Inr new_user)) (init one_user))
       = [CallRegisterLog ''Attempting to create new user'']"
    using 1 by (simp add: audit_before_action_def UserController_memory_def broken_Log_def
        split: list.splits)
  from 1 2 3 4 show ?thesis by blast
qed

section \<open>C3: the authorization check\<close>

text \<open>
  C3.  \<open>CheckPermission\<close> returns true if and only if the principal's effective
  permission set, the union of the permissions of all roles of the principal's user
  type, contains the permission id (an id of the registry); an absent principal, a user
  type with zero roles and an id that the registry does not hold are denied.  The check
  is a total function: it returns a boolean on every input.
\<close>

theorem C3_CheckPermission_spec:
  "CheckPermission_spec registry (Some p) permissionID
     = (registered registry permissionID \<and> permissionID \<in> effective_permissions p)
   \<and> (roles_registered registry p \<longrightarrow>
        CheckPermission_spec registry (Some p) permissionID
          = (permissionID \<in> effective_permissions p))
   \<and> \<not> CheckPermission_spec registry None permissionID
   \<and> (Roles (Type p) = [] \<longrightarrow> \<not> CheckPermission_spec registry (Some p) permissionID)
   \<and> (\<not> registered registry permissionID \<longrightarrow> \<not> CheckPermission_spec registry actor permissionID)"
proof -
  have ex: "list_ex (\<lambda>r. permissionID \<in> set (RolePermissions r)) (Roles (Type p))
              = (permissionID \<in> effective_permissions p)"
    by (auto simp: effective_permissions_def list_ex_iff)
  have reg: "permissionID \<in> effective_permissions p \<Longrightarrow> roles_registered registry p
               \<Longrightarrow> registered registry permissionID"
    by (auto simp: effective_permissions_def roles_registered_def list_all_iff)
  show ?thesis
    using ex reg by (auto simp: CheckPermission_spec_def split: option.splits)
qed

theorem C3_CheckPermission_spec_witness:
  "roles_registered registry_3 clerk
   \<and> CheckPermission_spec registry_3 (Some clerk) 2
   \<and> 2 \<in> effective_permissions clerk
   \<and> \<not> CheckPermission_spec registry_3 (Some clerk) 3
   \<and> Roles (Type (clerk\<lparr>Type := \<lparr>TypeName = ''guest'', Roles = []\<rparr>\<rparr>)) = []
   \<and> \<not> CheckPermission_spec registry_3
         (Some (clerk\<lparr>Type := \<lparr>TypeName = ''guest'', Roles = []\<rparr>\<rparr>)) 1
   \<and> \<not> registered registry_3 99
   \<and> \<not> CheckPermission_spec registry_3 (Some clerk) 99"
  using C3_CheckPermission_spec [of registry_3 clerk 2 "Some clerk"]
        C3_CheckPermission_spec [of registry_3 clerk 3 "Some clerk"]
        C3_CheckPermission_spec
          [of registry_3 "clerk\<lparr>Type := \<lparr>TypeName = ''guest'', Roles = []\<rparr>\<rparr>" 1 "Some clerk"]
        C3_CheckPermission_spec [of registry_3 clerk 99 "Some clerk"]
  by (simp add: registry_3_def clerk_def roles_registered_def registered_def
      effective_permissions_def)

section \<open>C4: conflict and bad request on Create\<close>

text \<open>
  C4 as stated: a Create body that duplicates an existing natural key is rejected with
  409, and a Create body with missing or invalid required fields is rejected with 400.
  \<open>CreateEmployee\<close> looks the PersonalID up before it validates \<open>UserID\<close> and
  \<open>IdentifierTypeID\<close>: a body with an existing PersonalID and \<open>UserID = 0\<close> is
  answered 409, not 400.
\<close>

theorem C4_counterexample:
  "CreateEmployeeDTO.UserID (eva_again 0) \<le> 0
   \<and> statuses (EmployeeController_CreateEmployee
        \<lparr>Service = EmployeeService_answering (Some eva), Auth = grant_all, Log = memory_Log\<rparr>
        (request_7 (Inr (eva_again 0))) (init no_users)) = [StatusConflict]
   \<and> statuses (EmployeeController_CreateEmployee
        \<lparr>Service = EmployeeService_answering (Some eva), Auth = grant_all, Log = memory_Log\<rparr>
        (request_7 (Inr (eva_again 0))) (init no_users)) \<noteq> [StatusBadRequest]"
  by (simp add: EmployeeController_CreateEmployee_def EmployeeService_answering_def eva_again_def
      handler_simps fixture_simps)

text \<open>
  C4, amended.  For \<open>CreateEmployee\<close> and \<open>CreateUser\<close>, once the attempt is logged
  and the permission check allows: a body that does not bind is rejected with 400 and no
  service operation is called; a body that binds and whose natural key (PersonalID,
  Email) the lookup finds is rejected with 409, whatever its other fields: after the
  lookup the handler only logs and answers, so the create operation is not called and
  the backend is the one that the lookup and the audit writer left; and
  \<open>CreateEmployee\<close> rejects with 400, again with the lookup as its only service call,
  a body whose PersonalID is not found and whose \<open>UserID\<close> or \<open>IdentifierTypeID\<close> is
  not positive.  The two failure kinds have different status codes.
\<close>

theorem C4_create_conflict_and_bad_request:
  "(audit_ok (Log ec) ce ''Attempting to create an employee'' w
    \<and> Auth ec ce PERMISSION_CREATE_EMPLOYEE
         (audited (Log ec) ce ''Attempting to create an employee'' w)
    \<and> ShouldBindJSON ce = Inl bad
    \<longrightarrow> statuses (EmployeeController_CreateEmployee ec ce (init w)) = [StatusBadRequest]
        \<and> \<not> list_ex is_service (calls (EmployeeController_CreateEmployee ec ce (init w))))
   \<and> (audit_ok (Log ec) ce ''Attempting to create an employee'' w
    \<and> Auth ec ce PERMISSION_CREATE_EMPLOYEE
         (audited (Log ec) ce ''Attempting to create an employee'' w)
    \<and> ShouldBindJSON ce = Inr dto
    \<and> fst (fst (GetEmployeeByID (Service ec) (CreateEmployeeDTO.PersonalID dto)
         (audited (Log ec) ce ''Attempting to create an employee'' w))) \<noteq> None
    \<longrightarrow> statuses (EmployeeController_CreateEmployee ec ce (init w)) = [StatusConflict]
        \<and> calls (EmployeeController_CreateEmployee ec ce (init w))
            = [CallRegisterLog ''Attempting to create an employee'',
               CallCheckPermission PERMISSION_CREATE_EMPLOYEE,
               CallService ''EmployeeService.GetEmployeeByID'',
               CallRegisterLog (''Attempt to create duplicate employee with PersonalID: ''
                                  @ CreateEmployeeDTO.PersonalID dto)]
        \<and> world (EmployeeController_CreateEmployee ec ce (init w))
            = audited (Log ec) ce
                (''Attempt to create duplicate employee with PersonalID: ''
                   @ CreateEmployeeDTO.PersonalID dto)
                (snd (GetEmployeeByID (Service ec) (CreateEmployeeDTO.PersonalID dto)
                        (audited (Log ec) ce ''Attempting to create an employee'' w)))
        \<and> \<not> panicked (EmployeeController_CreateEmployee ec ce (init w)))
   \<and> (audit_ok (Log ec) ce ''Attempting to create an employee'' w
    \<and> Auth ec ce PERMISSION_CREATE_EMPLOYEE
         (audited (Log ec) ce ''Attempting to create an employee'' w)
    \<and> ShouldBindJSON ce = Inr dto
    \<and> fst (fst (GetEmployeeByID (Service ec) (CreateEmployeeDTO.PersonalID dto)
         (audited (Log ec) ce ''Attempting to create an employee'' w))) = None
    \<and> (CreateEmployeeDTO.UserID dto \<le> 0 \<or> CreateEmployeeDTO.IdentifierTypeID dto \<le> 0)
    \<longrightarrow> statuses (EmployeeController_CreateEmployee ec ce (init w)) = [StatusBadRequest]
        \<and> filter is_service (calls (EmployeeController_CreateEmployee ec ce (init w)))
            = [CallService ''EmployeeService.GetEmployeeByID''])
   \<and> (audit_ok (Log ucc) cc ''Attempting to create new user'' w
    \<and> Auth ucc cc PERMISSION_CREATE_USER (audited (Log ucc) cc ''Attempting to create new user'' w)
    \<and> ShouldBindJSON cc = Inl bad
    \<longrightarrow> statuses (UserController_CreateUser ucc cc (init w)) = [StatusBadRequest]
        \<and> \<not> list_ex is_service (calls (UserController_CreateUser ucc cc (init w))))
   \<and> (audit_ok (Log ucc) cc ''Attempting to create new user'' w
    \<and> Auth ucc cc PERMISSION_CREATE_USER (audited (Log ucc) cc ''Attempting to create new user'' w)
    \<and> ShouldBindJSON cc = Inr new
    \<and> fst (fst (GetUserByEmail (Service ucc) (CreateUserDTO.Email new)
         (audited (Log ucc) cc ''Attempting to create new user'' w))) \<noteq> None
    \<longrightarrow> statuses (UserController_CreateUser ucc cc (init w)) = [StatusConflict]
        \<and> calls (UserController_CreateUser ucc cc (init w))
            = [CallRegisterLog ''Attempting to create new user'',
               CallCheckPermission PERMISSION_CREATE_USER,
               CallService ''UserService.GetUserByEmail'',
               CallRegisterLog (''Email already in use: '' @ CreateUserDTO.Email new)]
        \<and> world (UserController_CreateUser ucc cc (init w))
            = audited (Log ucc) cc (''Email already in use: '' @ CreateUserDTO.Email new)
                (snd (GetUserByEmail (Service ucc) (CreateUserDTO.Email new)
                        (audited (Log ucc) cc ''Attempting to create new user'' w)))
        \<and> \<not> panicked (UserController_CreateUser ucc cc (init w)))"
proof (intro conjI impI)
qed (auto simp add: EmployeeController_CreateEmployee_def UserController_CreateUser_def
      handler_simps)

text \<open>
  The theorem at concrete requests.  The duplicate user leaves the users table with the
  one row it had, where the same request with a new address adds a row.
\<close>

theorem C4_create_conflict_and_bad_request_witness:
  "statuses (EmployeeController_CreateEmployee
      \<lparr>Service = EmployeeService_answering None, Auth = grant_all, Log = memory_Log\<rparr>
      (request_7 (Inl (GoError False ''unexpected end of JSON input''))) (init no_users))
     = [StatusBadRequest]
   \<and> statuses (EmployeeController_CreateEmployee
      \<lparr>Service = EmployeeService_answering (Some eva), Auth = grant_all, Log = memory_Log\<rparr>
      (request_7 (Inr (eva_again 7))) (init no_users)) = [StatusConflict]
   \<and> filter is_service (calls (EmployeeController_CreateEmployee
      \<lparr>Service = EmployeeService_answering (Some eva), Auth = grant_all, Log = memory_Log\<rparr>
      (request_7 (Inr (eva_again 7))) (init no_users)))
     = [CallService ''EmployeeService.GetEmployeeByID'']
   \<and> statuses (EmployeeController_CreateEmployee
      \<lparr>Service = EmployeeService_answering None, Auth = grant_all, Log = memory_Log\<rparr>
      (request_7 (Inr (eva_again 0))) (init no_users)) = [StatusBadRequest]
   \<and> filter is_service (calls (EmployeeController_CreateEmployee
      \<lparr>Service = EmployeeService_answering None, Auth = grant_all, Log = memory_Log\<rparr>
      (request_7 (Inr (eva_again 0))) (init no_users)))
     = [CallService ''EmployeeService.GetEmployeeByID'']
   \<and> statuses (UserController_CreateUser (UserController_memory grant_all memory_Log)
      (request_7 (Inl (GoError False ''unexpected end of JSON input''))) (init one_user))
     = [StatusBadRequest]
   \<and> statuses (UserController_CreateUser (UserController_memory grant_all memory_Log)
      (request_7 (Inr (new_user\<lparr>CreateUserDTO.Email := ''ana@totes.co''\<rparr>))) (init one_user))
     = [StatusConflict]
   \<and> filter is_service (calls (UserController_CreateUser
      (UserController_memory grant_all memory_Log)
      (request_7 (Inr (new_user\<lparr>CreateUserDTO.Email := ''ana@totes.co''\<rparr>))) (init one_user)))
     = [CallService ''UserService.GetUserByEmail'']
   \<and> users_table (world (UserController_CreateUser (UserController_memory grant_all memory_Log)
      (request_7 (Inr (new_user\<lparr>CreateUserDTO.Email := ''ana@totes.co''\<rparr>))) (init one_user)))
     = [ana]
   \<and> length (users_table (world (UserController_CreateUser
      (UserController_memory grant_all memory_Log)
      (request_7 (Inr new_user)) (init one_user)))) = 2"
proof -
  have e_bad: "audit_ok
       (Log \<lparr>Service = EmployeeService_answering None, Auth = grant_all, Log = memory_Log\<rparr>)
       (request_7 (Inl (GoError False ''unexpected end of JSON input'')))
       ''Attempting to create an employee'' no_users
     \<and> Auth \<lparr>Service = EmployeeService_answering None, Auth = grant_all, Log = memory_Log\<rparr>
         (request_7 (Inl (GoError False ''unexpected end of JSON input'')))
         PERMISSION_CREATE_EMPLOYEE
         (audited
           (Log \<lparr>Service = EmployeeService_answering None, Auth = grant_all, Log = memory_Log\<rparr>)
           (request_7 (Inl (GoError False ''unexpected end of JSON input'')))
           ''Attempting to create an employee'' no_users)
     \<and> ShouldBindJSON (request_7 (Inl (GoError False ''unexpected end of JSON input'')))
        = Inl (GoError False ''unexpected end of JSON input'')"
    by (simp add: fixture_simps)
  note A = C4_create_conflict_and_bad_request
          [where ec = "\<lparr>Service = EmployeeService_answering None, Auth = grant_all,
                          Log = memory_Log\<rparr>"
             and ce = "request_7 (Inl (GoError False ''unexpected end of JSON input''))"
             and w = no_users and bad = "GoError False ''unexpected end of JSON input''",
           THEN conjunct1, THEN mp, OF e_bad]
  have e_dup: "audit_ok
       (Log \<lparr>Service = EmployeeService_answering (Some eva), Auth = grant_all,
             Log = memory_Log\<rparr>)
       (request_7 (Inr (eva_again 7))) ''Attempting to create an employee'' no_users
     \<and> Auth \<lparr>Service = EmployeeService_answering (Some eva), Auth = grant_all,
              Log = memory_Log\<rparr>
         (request_7 (Inr (eva_again 7))) PERMISSION_CREATE_EMPLOYEE
         (audited
           (Log \<lparr>Service = EmployeeService_answering (Some eva), Auth = grant_all,
                 Log = memory_Log\<rparr>)
           (request_7 (Inr (eva_again 7))) ''Attempting to create an employee'' no_users)
     \<and> ShouldBindJSON (request_7 (Inr (eva_again 7))) = Inr (eva_again 7)
     \<and> fst (fst (GetEmployeeByID
          (Service \<lparr>Service = EmployeeService_answering (Some eva), Auth = grant_all,
                    Log = memory_Log\<rparr>)
          (CreateEmployeeDTO.PersonalID (eva_again 7))
          (audited
            (Log \<lparr>Service = EmployeeService_answering (Some eva), Auth = grant_all,
                  Log = memory_Log\<rparr>)
            (request_7 (Inr (eva_again 7))) ''Attempting to create an employee'' no_users)))
        \<noteq> None"
    by (simp add: fixture_simps EmployeeService_answering_def)
  note B = C4_create_conflict_and_bad_request
          [where ec = "\<lparr>Service = EmployeeService_answering (Some eva), Auth = grant_all,
                          Log = memory_Log\<rparr>"
             and ce = "request_7 (Inr (eva_again 7))" and w = no_users and dto = "eva_again 7",
           THEN conjunct2, THEN conjunct1, THEN mp, OF e_dup]
  have e_inv: "audit_ok
       (Log \<lparr>Service = EmployeeService_answering None, Auth = grant_all, Log = memory_Log\<rparr>)
       (request_7 (Inr (eva_again 0))) ''Attempting to create an employee'' no_users
     \<and> Auth \<lparr>Service = EmployeeService_answering None, Auth = grant_all, Log = memory_Log\<rparr>
         (request_7 (Inr (eva_again 0))) PERMISSION_CREATE_EMPLOYEE
         (audited
           (Log \<lparr>Service = EmployeeService_answering None, Auth = grant_all, Log = memory_Log\<rparr>)
           (request_7 (Inr (eva_again 0))) ''Attempting to create an employee'' no_users)
     \<and> ShouldBindJSON (request_7 (Inr (eva_again 0))) = Inr (eva_again 0)
     \<and> fst (fst (GetEmployeeByID
          (Service \<lparr>Service = EmployeeService_answering None, Auth = grant_all,
                    Log = memory_Log\<rparr>)
          (CreateEmployeeDTO.PersonalID (eva_again 0))
          (audited
            (Log \<lparr>Service = EmployeeService_answering None, Auth = grant_all,
                  Log = memory_Log\<rparr>)
            (request_7 (Inr (eva_again 0))) ''Attempting to create an employee'' no_users)))
        = None
     \<and> (CreateEmployeeDTO.UserID (eva_again 0) \<le> 0
         \<or> CreateEmployeeDTO.IdentifierTypeID (eva_again 0) \<le> 0)"
    by (simp add: fixture_simps EmployeeService_answering_def eva_again_def)
  note C = C4_create_conflict_and_bad_request
          [where ec = "\<lparr>Service = EmployeeService_answering None, Auth = grant_all,
                          Log = memory_Log\<rparr>"
             and ce = "request_7 (Inr (eva_again 0))" and w = no_users and dto = "eva_again 0",
           THEN conjunct2, THEN conjunct2, THEN conjunct1, THEN mp, OF e_inv]
  have u_bad: "audit_ok (Log (UserController_memory grant_all memory_Log))
       (request_7 (Inl (GoError False ''unexpected end of JSON input'')))
       ''Attempting to create new user'' one_user
     \<and> Auth (UserController_memory grant_all memory_Log)
         (request_7 (Inl (GoError False ''unexpected end of JSON input'')))
         PERMISSION_CREATE_USER
         (audited (Log (UserController_memory grant_all memory_Log))
           (request_7 (Inl (GoError False ''unexpected end of JSON input'')))
           ''Attempting to create new user'' one_user)
     \<and> ShouldBindJSON (request_7 (Inl (GoError False ''unexpected end of JSON input'')))
        = Inl (GoError False ''unexpected end of JSON input'')"
    by (simp add: fixture_simps)
  note D = C4_create_conflict_and_bad_request
          [where ucc = "UserController_memory grant_all memory_Log"
             and cc = "request_7 (Inl (GoError False ''unexpected end of JSON input''))"
             and w = one_user and bad = "GoError False ''unexpected end of JSON input''",
           THEN conjunct2, THEN conjunct2, THEN conjunct2, THEN conjunct1, THEN mp, OF u_bad]
  have u_dup: "audit_ok (Log (UserController_memory grant_all memory_Log))
       (request_7 (Inr (new_user\<lparr>CreateUserDTO.Email := ''ana@totes.co''\<rparr>)))
       ''Attempting to create new user'' one_user
     \<and> Auth (UserController_memory grant_all memory_Log)
         (request_7 (Inr (new_user\<lparr>CreateUserDTO.Email := ''ana@totes.co''\<rparr>)))
         PERMISSION_CREATE_USER
         (audited (Log (UserController_memory grant_all memory_Log))
           (request_7 (Inr (new_user\<lparr>CreateUserDTO.Email := ''ana@totes.co''\<rparr>)))
           ''Attempting to create new user'' one_user)
     \<and> ShouldBindJSON (request_7 (Inr (new_user\<lparr>CreateUserDTO.Email := ''ana@totes.co''\<rparr>)))
        = Inr (new_user\<lparr>CreateUserDTO.Email := ''ana@totes.co''\<rparr>)
     \<and> fst (fst (GetUserByEmail (Service (UserController_memory grant_all memory_Log))
          (CreateUserDTO.Email (new_user\<lparr>CreateUserDTO.Email := ''ana@totes.co''\<rparr>))
          (audited (Log (UserController_memory grant_all memory_Log))
            (request_7 (Inr (new_user\<lparr>CreateUserDTO.Email := ''ana@totes.co''\<rparr>)))
            ''Attempting to create new user'' one_user))) \<noteq> None"
    by (simp add: fixture_simps)
  note E = C4_create_conflict_and_bad_request
          [where ucc = "UserController_memory grant_all memory_Log"
             and cc = "request_7 (Inr (new_user\<lparr>CreateUserDTO.Email := ''ana@totes.co''\<rparr>))"
             and w = one_user and new = "new_user\<lparr>CreateUserDTO.Email := ''ana@totes.co''\<rparr>",
           THEN conjunct2, THEN conjunct2, THEN conjunct2, THEN conjunct2, THEN mp, OF u_dup]
  have kept: "users_table (world (UserController_CreateUser
      (UserController_memory grant_all memory_Log)
      (request_7 (Inr (new_user\<lparr>CreateUserDTO.Email := ''ana@totes.co''\<rparr>))) (init one_user)))
     = [ana]"
    using E by (simp add: UserController_memory_def memory_Log_def memory_UserService_def
        one_user_def)
  have added: "length (users_table (world (UserController_CreateUser
      (UserController_memory grant_all memory_Log)
      (request_7 (Inr new_user)) (init one_user)))) = 2"
    by (simp add: UserController_CreateUser_def handler_simps fixture_simps)
  from A B C D E kept added show ?thesis
    by simp
qed

section \<open>C5: GetByID on an id that does not exist\<close>

text \<open>
  C5.  GetByID with an id that does not exist answers 404 and never 500.  On a backend
  without users the service's \<open>GetUserByID\<close> returns nil and
  \<open>gorm.ErrRecordNotFound\<close>, the not-found error of the service contract;
  \<open>UserController.GetUserByID\<close> answers it with 500, while \<open>UpdateUser\<close> of the
  same controller answers the same result of the same service method with 404.
  \<open>AdditionalExpenseController.GetAdditionalExpenseByID\<close> answers it with 500 too.
\<close>

theorem C5_missing_id_is_500:
  "fst (GetUserByID memory_UserService ''7'' no_users) = (None, Some ErrRecordNotFound)
   \<and> is_ErrRecordNotFound ErrRecordNotFound
   \<and> statuses (UserController_GetUserByID (UserController_memory grant_all memory_Log)
        (request_7 (Inr ())) (init no_users)) = [StatusInternalServerError]
   \<and> statuses (UserController_UpdateUser (UserController_memory grant_all memory_Log)
        (request_7 (Inr changed_user)) (init no_users)) = [StatusNotFound]
   \<and> statuses (AdditionalExpenseController_GetAdditionalExpenseByID
        \<lparr>Service = AdditionalExpenseService_answering ([] :: string list) (Some ErrRecordNotFound),
         Auth = grant_all, Log = memory_Log\<rparr>
        (request_7 (Inr ())) (init no_users)) = [StatusInternalServerError]"
  by (simp add: UserController_GetUserByID_def UserController_UpdateUser_def
      AdditionalExpenseController_GetAdditionalExpenseByID_def
      AdditionalExpenseService_answering_def handler_simps fixture_simps)

text \<open>
  The same for every audit writer, authorization utility and service: any error of the
  service, the not-found error included, is answered 500 by these two handlers, and 404
  is kept for the result nil without an error.
\<close>

lemma GetUserByID_service_error:
  "audit_ok (Log uc) c (''Attempting to retrieve user with ID: '' @ Param c ''id'') w
   \<Longrightarrow> Auth uc c PERMISSION_GET_USER_BY_ID
         (audited (Log uc) c (''Attempting to retrieve user with ID: '' @ Param c ''id'') w)
   \<Longrightarrow> snd (fst (GetUserByID (Service uc) (Param c ''id'')
         (audited (Log uc) c (''Attempting to retrieve user with ID: '' @ Param c ''id'') w)))
       = Some e
   \<Longrightarrow> statuses (UserController_GetUserByID uc c (init w)) = [StatusInternalServerError]"
  by (simp add: UserController_GetUserByID_def handler_simps)

lemma GetUserByID_nil_nil:
  "audit_ok (Log uc) c (''Attempting to retrieve user with ID: '' @ Param c ''id'') w
   \<Longrightarrow> Auth uc c PERMISSION_GET_USER_BY_ID
         (audited (Log uc) c (''Attempting to retrieve user with ID: '' @ Param c ''id'') w)
   \<Longrightarrow> fst (GetUserByID (Service uc) (Param c ''id'')
         (audited (Log uc) c (''Attempting to retrieve user with ID: '' @ Param c ''id'') w))
       = (None, None)
   \<Longrightarrow> statuses (UserController_GetUserByID uc c (init w)) = [StatusNotFound]"
  by (simp add: UserController_GetUserByID_def handler_simps)

lemma GetAdditionalExpenseByID_service_error:
  "audit_ok (Log aec) c (''Attempting to retrieve AdditionalExpense with ID: '' @ Param c ''id'') w
   \<Longrightarrow> Auth aec c PERMISSION_GET_ADDITIONAL_EXPENSE_BY_ID
         (audited (Log aec) c
            (''Attempting to retrieve AdditionalExpense with ID: '' @ Param c ''id'') w)
   \<Longrightarrow> snd (fst (GetAdditionalExpenseByID (Service aec) (Param c ''id'')
         (audited (Log aec) c
            (''Attempting to retrieve AdditionalExpense with ID: '' @ Param c ''id'') w)))
       = Some e
   \<Longrightarrow> statuses (AdditionalExpenseController_GetAdditionalExpenseByID aec c (init w))
       = [StatusInternalServerError]"
  by (simp add: AdditionalExpenseController_GetAdditionalExpenseByID_def handler_simps)

lemma GetAppointmentByID_service_error:
  "audit_ok (Log ac) c ''Attempting to get appointment by ID'' w
   \<Longrightarrow> Auth ac c PERMISSION_GET_APPOINTMENT_BY_ID
         (audited (Log ac) c ''Attempting to get appointment by ID'' w)
   \<Longrightarrow> Atoi (Param c ''id'') = (n, None)
   \<Longrightarrow> snd (fst (GetAppointmentByID (Service ac) n
         (audited (Log ac) c ''Attempting to get appointment by ID'' w))) = Some e
   \<Longrightarrow> statuses (AppointmentController_GetAppointmentByID ac c (init w)) = [StatusNotFound]"
  by (simp add: AppointmentController_GetAppointmentByID_def handler_simps)

section \<open>C6: CreateUser without the permission\<close>

text \<open>
  C6 as stated: every \<open>CreateUser\<close> request of a principal without
  \<open>PERMISSION_CREATE_USER\<close> is answered 403.  When the attempt cannot be logged the
  answer is 500, before the permission is looked at.
\<close>

theorem C6_counterexample:
  "statuses (UserController_CreateUser (UserController_memory deny_all broken_Log)
      (request_7 (Inr new_user)) (init one_user)) = [StatusInternalServerError]
   \<and> statuses (UserController_CreateUser (UserController_memory deny_all broken_Log)
      (request_7 (Inr new_user)) (init one_user)) \<noteq> [StatusForbidden]"
  by (simp add: UserController_CreateUser_def handler_simps fixture_simps)

text \<open>
  C6, amended.  For every \<open>CreateUser\<close> request of a principal to whom
  \<open>PERMISSION_CREATE_USER\<close> is denied, whatever the body: the controller answers 403
  when the attempt log succeeds and 500 when it fails; in both cases no service operation
  is invoked, the handler does not panic, and the backend is the one the audit writer
  left, so every table that the audit writer does not touch is unchanged and no user row
  is inserted.
\<close>

theorem C6_denied_create_user:
  assumes "\<And>v. \<not> Auth uc c PERMISSION_CREATE_USER v"
  shows "statuses (UserController_CreateUser uc c (init w))
           = (if audit_ok (Log uc) c ''Attempting to create new user'' w
              then [StatusForbidden] else [StatusInternalServerError])
         \<and> \<not> list_ex is_service (calls (UserController_CreateUser uc c (init w)))
         \<and> \<not> panicked (UserController_CreateUser uc c (init w))
         \<and> world (UserController_CreateUser uc c (init w))
           = (if audit_ok (Log uc) c ''Attempting to create new user'' w
              then audited (Log uc) c ''Access denied for CreateUser''
                     (audited (Log uc) c ''Attempting to create new user'' w)
              else audited (Log uc) c ''Attempting to create new user'' w)
         \<and> ((\<forall>msg v. table (audited (Log uc) c msg v) = table v)
              \<longrightarrow> table (world (UserController_CreateUser uc c (init w))) = table w)"
  using assms by (simp add: UserController_CreateUser_def handler_simps)

text \<open>The theorem at a concrete request.\<close>

theorem C6_denied_create_user_witness:
  "(\<forall>v. \<not> Auth (UserController_memory deny_all memory_Log) (request_7 (Inr new_user))
           PERMISSION_CREATE_USER v)
   \<and> (\<forall>msg v. users_table (audited (Log (UserController_memory deny_all memory_Log))
           (request_7 (Inr new_user)) msg v) = users_table v)
   \<and> statuses (UserController_CreateUser (UserController_memory deny_all memory_Log)
        (request_7 (Inr new_user)) (init one_user)) = [StatusForbidden]
   \<and> users_table (world (UserController_CreateUser (UserController_memory deny_all memory_Log)
        (request_7 (Inr new_user)) (init one_user))) = [ana]
   \<and> audit_table (world (UserController_CreateUser (UserController_memory deny_all memory_Log)
        (request_7 (Inr new_user)) (init one_user)))
       = [''Attempting to create new user'', ''Access denied for CreateUser'']
   \<and> users_table (world (UserController_CreateUser (UserController_memory grant_all memory_Log)
        (request_7 (Inr new_user)) (init one_user))) \<noteq> [ana]"
proof -
  have denied: "\<And>v. \<not> Auth (UserController_memory deny_all memory_Log)
      (request_7 (Inr new_user)) PERMISSION_CREATE_USER v"
    by (simp add: UserController_memory_def deny_all_def)
  have kept: "\<forall>msg v. users_table (audited (Log (UserController_memory deny_all memory_Log))
      (request_7 (Inr new_user)) msg v) = users_table v"
    by (simp add: UserController_memory_def memory_Log_def)
  have granted: "users_table (world (UserController_CreateUser
      (UserController_memory grant_all memory_Log)
      (request_7 (Inr new_user)) (init one_user))) \<noteq> [ana]"
    by (simp add: UserController_CreateUser_def handler_simps fixture_simps)
  show ?thesis
    using C6_denied_create_user [of "UserController_memory deny_all memory_Log"
        "request_7 (Inr new_user)" one_user users_table, OF denied] kept denied granted
    by (simp add: UserController_memory_def memory_Log_def one_user_def)
qed

section \<open>C7: the status code of a service error\<close>

text \<open>
  C7 as stated: in every controller operation a service error that is neither not-found
  nor conflict is answered 500.  \<open>BillingController.CalculateSubtotal\<close> answers every
  service error with 404 and the error's text, as its annotation documents.
\<close>

theorem C7_counterexample:
  "\<not> is_ErrRecordNotFound refused
   \<and> statuses (BillingController_CalculateSubtotal
        \<lparr>Service = BillingService_answering (0 :: nat) (Some refused), Auth = grant_all\<rparr>
        (request_7 (Inr [()])) (init no_users)) = [StatusNotFound]
   \<and> statuses (BillingController_CalculateSubtotal
        \<lparr>Service = BillingService_answering (0 :: nat) (Some refused), Auth = grant_all\<rparr>
        (request_7 (Inr [()])) (init no_users)) \<noteq> [StatusInternalServerError]"
  by (simp add: BillingController_CalculateSubtotal_def BillingService_answering_def
      handler_simps fixture_simps)

text \<open>
  C7, amended.  Once the attempt is logged and the permission check allows, a service
  error is answered 500 by the GetAll operations of the Appointment, AdditionalExpense,
  UserStateType and Item controllers and by \<open>CreateUser\<close> and \<open>CreateEmployee\<close>
  when the insert fails; \<open>UpdateUser\<close> answers an error of the lookup with 404 when
  it is \<open>gorm.ErrRecordNotFound\<close> and with 500 otherwise; \<open>CreateUser\<close> and
  \<open>CreateEmployee\<close> answer 409 when the lookup finds the natural key;
  \<open>BillingController.CalculateSubtotal\<close> answers every service error with 404.
\<close>

theorem C7_service_error_mapping:
  "(audit_ok (Log ac) c ''Attempting to retrieve all appointments'' w
    \<and> Auth ac c PERMISSION_GET_ALL_APPOINTMENTS
         (audited (Log ac) c ''Attempting to retrieve all appointments'' w)
    \<and> snd (fst (GetAllAppointments (Service ac)
         (audited (Log ac) c ''Attempting to retrieve all appointments'' w))) \<noteq> None
    \<longrightarrow> statuses (AppointmentController_GetAllAppointments ac c (init w))
          = [StatusInternalServerError])
   \<and> (audit_ok (Log aec) c ''Attempting to retrieve all AdditionalExpenses'' w
    \<and> Auth aec c PERMISSION_GET_ALL_ADDITIONAL_EXPENSE
         (audited (Log aec) c ''Attempting to retrieve all AdditionalExpenses'' w)
    \<and> snd (fst (GetAllAdditionalExpenses (Service aec)
         (audited (Log aec) c ''Attempting to retrieve all AdditionalExpenses'' w))) \<noteq> None
    \<longrightarrow> statuses (AdditionalExpenseController_GetAllAdditionalExpenses aec c (init w))
          = [StatusInternalServerError])
   \<and> (Auth ustc c PERMISSION_GET_ALL_USER_STATE_TYPES w
    \<and> audit_ok (Log ustc) c ''Attempting to retrieve all user state types'' w
    \<and> snd (fst (GetAllUserStateTypes (Service ustc)
         (audited (Log ustc) c ''Attempting to retrieve all user state types'' w))) \<noteq> None
    \<longrightarrow> statuses (UserStateTypeController_GetAllUserStateTypes ustc c (init w))
          = [StatusInternalServerError])
   \<and> (audit_ok (Log ic) c ''Fetching all items'' w
    \<and> snd (fst (GetAllItems (Service ic) (audited (Log ic) c ''Fetching all items'' w))) \<noteq> None
    \<longrightarrow> statuses (ItemController_GetAllItems ic c (init w)) = [StatusInternalServerError])
   \<and> (audit_ok (Log ucu) cu (''Attempting to update user with ID: '' @ Param cu ''id'') w
    \<and> Auth ucu cu PERMISSION_UPDATE_USER
         (audited (Log ucu) cu (''Attempting to update user with ID: '' @ Param cu ''id'') w)
    \<and> ShouldBindJSON cu = Inr dto
    \<and> snd (fst (GetUserByID (Service ucu) (Param cu ''id'')
         (audited (Log ucu) cu (''Attempting to update user with ID: '' @ Param cu ''id'') w)))
       = Some e
    \<longrightarrow> statuses (UserController_UpdateUser ucu cu (init w))
          = [if is_ErrRecordNotFound e then StatusNotFound else StatusInternalServerError])
   \<and> (audit_ok (Log ucc) cc ''Attempting to create new user'' w
    \<and> Auth ucc cc PERMISSION_CREATE_USER (audited (Log ucc) cc ''Attempting to create new user'' w)
    \<and> ShouldBindJSON cc = Inr new
    \<and> GetUserByEmail (Service ucc) (CreateUserDTO.Email new)
         (audited (Log ucc) cc ''Attempting to create new user'' w)
       = ((None, lookupErr), v)
    \<and> snd (fst (CreateUser (Service ucc)
              \<lparr>User.ID = 0,
               User.Email = CreateUserDTO.Email new,
               User.Password = CreateUserDTO.Password new,
               User.UserTypeID = CreateUserDTO.UserTypeID new,
               User.UserStateTypeID = CreateUserDTO.UserStateID new\<rparr> v)) \<noteq> None
    \<longrightarrow> statuses (UserController_CreateUser ucc cc (init w)) = [StatusInternalServerError])
   \<and> (Auth bc cb PERMISSION_CALCULATE_SUBTOTAL w
    \<and> ShouldBindJSON cb = Inr itemsDTO
    \<and> snd (fst (CalculateSubtotal (Service bc) itemsDTO w)) \<noteq> None
    \<longrightarrow> statuses (BillingController_CalculateSubtotal bc cb (init w)) = [StatusNotFound])
   \<and> (audit_ok (Log ucc) cc ''Attempting to create new user'' w
    \<and> Auth ucc cc PERMISSION_CREATE_USER (audited (Log ucc) cc ''Attempting to create new user'' w)
    \<and> ShouldBindJSON cc = Inr new
    \<and> fst (fst (GetUserByEmail (Service ucc) (CreateUserDTO.Email new)
         (audited (Log ucc) cc ''Attempting to create new user'' w))) \<noteq> None
    \<longrightarrow> statuses (UserController_CreateUser ucc cc (init w)) = [StatusConflict])
   \<and> (audit_ok (Log ec) ce ''Attempting to create an employee'' w
    \<and> Auth ec ce PERMISSION_CREATE_EMPLOYEE
         (audited (Log ec) ce ''Attempting to create an employee'' w)
    \<and> ShouldBindJSON ce = Inr hired
    \<and> fst (fst (GetEmployeeByID (Service ec) (CreateEmployeeDTO.PersonalID hired)
         (audited (Log ec) ce ''Attempting to create an employee'' w))) \<noteq> None
    \<longrightarrow> statuses (EmployeeController_CreateEmployee ec ce (init w)) = [StatusConflict])
   \<and> (audit_ok (Log ec) ce ''Attempting to create an employee'' w
    \<and> Auth ec ce PERMISSION_CREATE_EMPLOYEE
         (audited (Log ec) ce ''Attempting to create an employee'' w)
    \<and> ShouldBindJSON ce = Inr hired
    \<and> GetEmployeeByID (Service ec) (CreateEmployeeDTO.PersonalID hired)
         (audited (Log ec) ce ''Attempting to create an employee'' w)
       = ((None, lookupErr), v)
    \<and> 0 < CreateEmployeeDTO.UserID hired
    \<and> 0 < CreateEmployeeDTO.IdentifierTypeID hired
    \<and> snd (fst (CreateEmployee (Service ec)
              \<lparr>Employee.ID = 0,
               Employee.Names = CreateEmployeeDTO.Names hired,
               Employee.LastNames = CreateEmployeeDTO.LastNames hired,
               Employee.PersonalID = CreateEmployeeDTO.PersonalID hired,
               Employee.Address = CreateEmployeeDTO.Address hired,
               Employee.PhoneNumbers = CreateEmployeeDTO.PhoneNumbers hired,
               Employee.UserID = CreateEmployeeDTO.UserID hired,
               Employee.IdentifierTypeID = CreateEmployeeDTO.IdentifierTypeID hired\<rparr> v))
       \<noteq> None
    \<longrightarrow> statuses (EmployeeController_CreateEmployee ec ce (init w))
          = [StatusInternalServerError])"
proof (intro conjI impI)
qed (auto simp add: AppointmentController_GetAllAppointments_def
      AdditionalExpenseController_GetAllAdditionalExpenses_def
      UserStateTypeController_GetAllUserStateTypes_def ItemController_GetAllItems_def
      UserController_UpdateUser_def UserController_CreateUser_def
      EmployeeController_CreateEmployee_def
      BillingController_CalculateSubtotal_def handler_simps)

text \<open>The theorem at a concrete request.\<close>

theorem C7_service_error_mapping_witness:
  "statuses (AppointmentController_GetAllAppointments
      \<lparr>Service = AppointmentService_answering ''9:00'' [] (Some refused), Auth = grant_all,
       Log = memory_Log\<rparr>
      (request_7 (Inr ())) (init no_users)) = [StatusInternalServerError]
   \<and> statuses (AdditionalExpenseController_GetAllAdditionalExpenses
      \<lparr>Service = AdditionalExpenseService_answering ([] :: string list) (Some refused),
       Auth = grant_all, Log = memory_Log\<rparr>
      (request_7 (Inr ())) (init no_users)) = [StatusInternalServerError]
   \<and> statuses (UserStateTypeController_GetAllUserStateTypes
      \<lparr>Service = UserStateTypeService_answering ''active'' (Some refused), Auth = grant_all,
       Log = memory_Log\<rparr>
      (request_7 (Inr ())) (init no_users)) = [StatusInternalServerError]
   \<and> statuses (ItemController_GetAllItems
      \<lparr>Service = ItemService_answering ([] :: nat Item list) (Some refused), Auth = grant_all,
       Log = memory_Log\<rparr>
      (request_7 (Inr ())) (init no_users)) = [StatusInternalServerError]
   \<and> statuses (UserController_UpdateUser (UserController_memory grant_all memory_Log)
      (request_7 (Inr changed_user)) (init no_users))
     = [if is_ErrRecordNotFound ErrRecordNotFound then StatusNotFound
        else StatusInternalServerError]
   \<and> statuses (UserController_UpdateUser
      \<lparr>Service = memory_UserService\<lparr>GetUserByID := \<lambda>id w. ((None, Some refused), w)\<rparr>,
       Auth = grant_all, Log = memory_Log\<rparr>
      (request_7 (Inr changed_user)) (init no_users))
     = [if is_ErrRecordNotFound refused then StatusNotFound else StatusInternalServerError]
   \<and> statuses (UserController_CreateUser
      \<lparr>Service = memory_UserService\<lparr>CreateUser := \<lambda>u w. ((None, Some refused), w)\<rparr>,
       Auth = grant_all, Log = memory_Log\<rparr>
      (request_7 (Inr new_user)) (init no_users)) = [StatusInternalServerError]
   \<and> statuses (BillingController_CalculateSubtotal
        \<lparr>Service = BillingService_answering (0 :: nat) (Some refused), Auth = grant_all\<rparr>
        (request_7 (Inr [()])) (init no_users)) = [StatusNotFound]
   \<and> statuses (UserController_CreateUser (UserController_memory grant_all memory_Log)
        (request_7 (Inr (new_user\<lparr>CreateUserDTO.Email := ''ana@totes.co''\<rparr>))) (init one_user))
       = [StatusConflict]
   \<and> statuses (EmployeeController_CreateEmployee
        \<lparr>Service = EmployeeService_answering (Some eva), Auth = grant_all, Log = memory_Log\<rparr>
        (request_7 (Inr (eva_again 7))) (init no_users)) = [StatusConflict]
   \<and> statuses (EmployeeController_CreateEmployee
        \<lparr>Service = EmployeeService_answering None
                     \<lparr>CreateEmployee := \<lambda>e w. ((None, Some refused), w)\<rparr>,
         Auth = grant_all, Log = memory_Log\<rparr>
        (request_7 (Inr (eva_again 7))) (init no_users)) = [StatusInternalServerError]
   \<and> is_ErrRecordNotFound ErrRecordNotFound
   \<and> \<not> is_ErrRecordNotFound refused"
proof -
  note T = C7_service_error_mapping
    [where c = "request_7 (Inr ())" and w = no_users
       and ac = "\<lparr>Service = AppointmentService_answering ''9:00'' [] (Some refused),
                   Auth = grant_all, Log = memory_Log\<rparr>"
       and aec = "\<lparr>Service = AdditionalExpenseService_answering ([] :: string list) (Some refused),
                    Auth = grant_all, Log = memory_Log\<rparr>"
       and ustc = "\<lparr>Service = UserStateTypeService_answering ''active'' (Some refused),
                     Auth = grant_all, Log = memory_Log\<rparr>"
       and ic = "\<lparr>Service = ItemService_answering ([] :: nat Item list) (Some refused),
                   Auth = grant_all, Log = memory_Log\<rparr>"
       and cu = "request_7 (Inr changed_user)" and dto = changed_user
       and cc = "request_7 (Inr new_user)" and new = new_user
       and ucc = "\<lparr>Service = memory_UserService\<lparr>CreateUser := \<lambda>u w. ((None, Some refused), w)\<rparr>,
                    Auth = grant_all, Log = memory_Log\<rparr>"
       and lookupErr = "Some ErrRecordNotFound"
       and v = "no_users\<lparr>audit_table := [''Attempting to create new user'']\<rparr>"
       and bc = "\<lparr>Service = BillingService_answering (0 :: nat) (Some refused),
                   Auth = grant_all\<rparr>"
       and cb = "request_7 (Inr [()])" and itemsDTO = "[()]"]
  have 1: "statuses (AppointmentController_GetAllAppointments
      \<lparr>Service = AppointmentService_answering ''9:00'' [] (Some refused), Auth = grant_all,
       Log = memory_Log\<rparr>
      (request_7 (Inr ())) (init no_users)) = [StatusInternalServerError]"
    by (rule T [THEN conjunct1, THEN mp])
       (simp add: fixture_simps AppointmentService_answering_def)
  have 2: "statuses (AdditionalExpenseController_GetAllAdditionalExpenses
      \<lparr>Service = AdditionalExpenseService_answering ([] :: string list) (Some refused),
       Auth = grant_all, Log = memory_Log\<rparr>
      (request_7 (Inr ())) (init no_users)) = [StatusInternalServerError]"
    by (rule T [THEN conjunct2, THEN conjunct1, THEN mp])
       (simp add: fixture_simps AdditionalExpenseService_answering_def)
  have 3: "statuses (UserStateTypeController_GetAllUserStateTypes
      \<lparr>Service = UserStateTypeService_answering ''active'' (Some refused), Auth = grant_all,
       Log = memory_Log\<rparr>
      (request_7 (Inr ())) (init no_users)) = [StatusInternalServerError]"
    by (rule T [THEN conjunct2, THEN conjunct2, THEN conjunct1, THEN mp])
       (simp add: fixture_simps UserStateTypeService_answering_def)
  have 4: "statuses (ItemController_GetAllItems
      \<lparr>Service = ItemService_answering ([] :: nat Item list) (Some refused), Auth = grant_all,
       Log = memory_Log\<rparr>
      (request_7 (Inr ())) (init no_users)) = [StatusInternalServerError]"
    by (rule T [THEN conjunct2, THEN conjunct2, THEN conjunct2, THEN conjunct1, THEN mp])
       (simp add: fixture_simps ItemService_answering_def)
  have 5: "statuses (UserController_UpdateUser (UserController_memory grant_all memory_Log)
      (request_7 (Inr changed_user)) (init no_users))
     = [if is_ErrRecordNotFound ErrRecordNotFound then StatusNotFound
        else StatusInternalServerError]"
    by (rule T [where ucu = "UserController_memory grant_all memory_Log"
                  and e = ErrRecordNotFound,
                THEN conjunct2, THEN conjunct2, THEN conjunct2, THEN conjunct2, THEN conjunct1,
                THEN mp])
       (simp add: fixture_simps)
  have 6: "statuses (UserController_UpdateUser
      \<lparr>Service = memory_UserService\<lparr>GetUserByID := \<lambda>id w. ((None, Some refused), w)\<rparr>,
       Auth = grant_all, Log = memory_Log\<rparr>
      (request_7 (Inr changed_user)) (init no_users))
     = [if is_ErrRecordNotFound refused then StatusNotFound else StatusInternalServerError]"
    by (rule T [where ucu = "\<lparr>Service = memory_UserService
                                \<lparr>GetUserByID := \<lambda>id w. ((None, Some refused), w)\<rparr>,
                              Auth = grant_all, Log = memory_Log\<rparr>"
                  and e = refused,
                THEN conjunct2, THEN conjunct2, THEN conjunct2, THEN conjunct2, THEN conjunct1,
                THEN mp])
       (simp add: fixture_simps)
  have 7: "statuses (UserController_CreateUser
      \<lparr>Service = memory_UserService\<lparr>CreateUser := \<lambda>u w. ((None, Some refused), w)\<rparr>,
       Auth = grant_all, Log = memory_Log\<rparr>
      (request_7 (Inr new_user)) (init no_users)) = [StatusInternalServerError]"
    by (rule T [THEN conjunct2, THEN conjunct2, THEN conjunct2, THEN conjunct2, THEN conjunct2,
                THEN conjunct1, THEN mp])
       (simp add: fixture_simps)
  have 8: "statuses (BillingController_CalculateSubtotal
        \<lparr>Service = BillingService_answering (0 :: nat) (Some refused), Auth = grant_all\<rparr>
        (request_7 (Inr [()])) (init no_users)) = [StatusNotFound]"
    by (rule T [THEN conjunct2, THEN conjunct2, THEN conjunct2, THEN conjunct2, THEN conjunct2,
                THEN conjunct2, THEN conjunct1, THEN mp])
       (simp add: fixture_simps BillingService_answering_def)
  have 9: "is_ErrRecordNotFound ErrRecordNotFound \<and> \<not> is_ErrRecordNotFound refused"
    by (simp add: ErrRecordNotFound_def refused_def)
  have 10: "statuses (UserController_CreateUser (UserController_memory grant_all memory_Log)
        (request_7 (Inr (new_user\<lparr>CreateUserDTO.Email := ''ana@totes.co''\<rparr>))) (init one_user))
       = [StatusConflict]"
    by (rule C7_service_error_mapping
          [where ucc = "UserController_memory grant_all memory_Log"
             and cc = "request_7 (Inr (new_user\<lparr>CreateUserDTO.Email := ''ana@totes.co''\<rparr>))"
             and w = one_user and new = "new_user\<lparr>CreateUserDTO.Email := ''ana@totes.co''\<rparr>",
           THEN conjunct2, THEN conjunct2, THEN conjunct2, THEN conjunct2, THEN conjunct2,
           THEN conjunct2, THEN conjunct2, THEN conjunct1, THEN mp])
       (simp add: fixture_simps)
  have 11: "statuses (EmployeeController_CreateEmployee
        \<lparr>Service = EmployeeService_answering (Some eva), Auth = grant_all, Log = memory_Log\<rparr>
        (request_7 (Inr (eva_again 7))) (init no_users)) = [StatusConflict]"
    by (rule C7_service_error_mapping
          [where ec = "\<lparr>Service = EmployeeService_answering (Some eva), Auth = grant_all,
                          Log = memory_Log\<rparr>"
             and ce = "request_7 (Inr (eva_again 7))" and w = no_users
             and hired = "eva_again 7",
           THEN conjunct2, THEN conjunct2, THEN conjunct2, THEN conjunct2, THEN conjunct2,
           THEN conjunct2, THEN conjunct2, THEN conjunct2, THEN conjunct1, THEN mp])
       (simp add: fixture_simps EmployeeService_answering_def)
  have 12: "statuses (EmployeeController_CreateEmployee
        \<lparr>Service = EmployeeService_answering None
                     \<lparr>CreateEmployee := \<lambda>e w. ((None, Some refused), w)\<rparr>,
         Auth = grant_all, Log = memory_Log\<rparr>
        (request_7 (Inr (eva_again 7))) (init no_users)) = [StatusInternalServerError]"
    by (rule C7_service_error_mapping
          [where ec = "\<lparr>Service = EmployeeService_answering None
                                       \<lparr>CreateEmployee := \<lambda>e w. ((None, Some refused), w)\<rparr>,
                          Auth = grant_all, Log = memory_Log\<rparr>"
             and ce = "request_7 (Inr (eva_again 7))" and w = no_users
             and hired = "eva_again 7" and lookupErr = "Some ErrRecordNotFound"
             and v = "no_users\<lparr>audit_table := [''Attempting to create an employee'']\<rparr>",
           THEN conjunct2, THEN conjunct2, THEN conjunct2, THEN conjunct2, THEN conjunct2,
           THEN conjunct2, THEN conjunct2, THEN conjunct2, THEN conjunct2, THEN mp])
       (simp add: fixture_simps EmployeeService_answering_def eva_again_def)
  from 1 2 3 4 5 6 7 8 9 10 11 12 show ?thesis by blast
qed

section \<open>C8: the shape of a response\<close>

text \<open>
  C8 as stated: the body of every failed request is a JSON object \<open>{"error": string}\<close>.
  A search without results is answered 404 with the body
  \<open>{"message": "No appointments found"}\<close>.
\<close>

theorem C8_counterexample:
  "written (AppointmentController_SearchAppointmentsByID
      \<lparr>Service = AppointmentService_answering ''9:00'' [] None, Auth = grant_all, Log = memory_Log\<rparr>
      (request_7 (Inr ())) (init no_users))
     = [(StatusNotFound, H [(''message'', JStr ''No appointments found'')])]
   \<and> \<not> list_all uniform_response (written (AppointmentController_SearchAppointmentsByID
      \<lparr>Service = AppointmentService_answering ''9:00'' [] None, Auth = grant_all, Log = memory_Log\<rparr>
      (request_7 (Inr ())) (init no_users)))"
  by (simp add: AppointmentController_SearchAppointmentsByID_def AppointmentService_answering_def
      uniform_response_def handler_simps fixture_simps)

text \<open>
  C8, amended.  Every response that a handler writes, taken as it is sent (the keys of
  a \<open>gin.H\<close> sorted), has one of the status codes 200, 201, 400, 403, 404, 409, 500,
  and the body of every response with a status of 400 or more is a JSON object with
  string values that holds an \<open>"error"\<close> entry, alone or together with a
  \<open>"details"\<close> entry, or, for a 404, the single entry \<open>"message"\<close>.
\<close>

theorem C8_written_responses:
  "list_all written_response (map sent (written (UserController_GetUserByID uc c (init w))))
   \<and> list_all written_response (map sent (written (UserController_GetAllUsers uc c (init w))))
   \<and> list_all written_response (map sent (written (UserController_SearchUsersByID uc c (init w))))
   \<and> list_all written_response (map sent (written (UserController_SearchUsersByEmail uc c (init w))))
   \<and> list_all written_response (map sent (written (UserController_UpdateUserState ucs cs (init w))))
   \<and> list_all written_response (map sent (written (UserController_UpdateUser ucu cu (init w))))
   \<and> list_all written_response (map sent (written (UserController_CreateUser ucc cc (init w))))
   \<and> list_all written_response (map sent (written (AppointmentController_GetAppointmentByID ac c (init w))))
   \<and> list_all written_response (map sent (written (AppointmentController_GetAllAppointments ac c (init w))))
   \<and> list_all written_response (map sent (written (AppointmentController_SearchAppointmentsByID ac c (init w))))
   \<and> list_all written_response (map sent (written (AdditionalExpenseController_GetAdditionalExpenseByID aec c (init w))))
   \<and> list_all written_response (map sent (written (AdditionalExpenseController_GetAllAdditionalExpenses aec c (init w))))
   \<and> list_all written_response (map sent (written (EmployeeController_CreateEmployee ec ce (init w))))
   \<and> list_all written_response (map sent (written (CustomerController_SearchCustomersByID cuc c (init w))))
   \<and> list_all written_response (map sent (written (ItemController_GetItemByID ic c (init w))))
   \<and> list_all written_response (map sent (written (ItemController_GetAllItems ic c (init w))))
   \<and> list_all written_response (map sent (written (UserStateTypeController_GetUserStateTypeByID ustc c (init w))))
   \<and> list_all written_response (map sent (written (UserStateTypeController_GetAllUserStateTypes ustc c (init w))))
   \<and> list_all written_response (map sent (written (BillingController_CalculateSubtotal bc cb (init w))))
   \<and> list_all written_response (map sent (written (RoleController_GetRoleByID Sscanf rc c (init w))))"
  unfolding list_all_written_response_sent
  by (intro conjI)
     (rule UserController_GetUserByID_written,
      rule UserController_GetAllUsers_written,
      rule UserController_SearchUsersByID_written,
      rule UserController_SearchUsersByEmail_written,
      rule UserController_UpdateUserState_written,
      rule UserController_UpdateUser_written,
      rule UserController_CreateUser_written,
      rule AppointmentController_GetAppointmentByID_written,
      rule AppointmentController_GetAllAppointments_written,
      rule AppointmentController_SearchAppointmentsByID_written,
      rule AdditionalExpenseController_GetAdditionalExpenseByID_written,
      rule AdditionalExpenseController_GetAllAdditionalExpenses_written,
      rule EmployeeController_CreateEmployee_written,
      rule CustomerController_SearchCustomersByID_written,
      rule ItemController_GetItemByID_written,
      rule ItemController_GetAllItems_written,
      rule UserStateTypeController_GetUserStateTypeByID_written,
      rule UserStateTypeController_GetAllUserStateTypes_written,
      rule BillingController_CalculateSubtotal_written,
      rule RoleController_GetRoleByID_written)

section \<open>C9: the item handlers make no permission check\<close>

text \<open>The struct literal \<open>dtos.GetItemDTO{...}\<close> copies each field of the item.\<close>

lemma GetItemDTO_of_fields:
  "GetItemDTO.ID (GetItemDTO_of i) = Item.ID i"
  "GetItemDTO.Name (GetItemDTO_of i) = Item.Name i"
  "GetItemDTO.Description (GetItemDTO_of i) = Item.Description i"
  "GetItemDTO.Stock (GetItemDTO_of i) = Item.Stock i"
  "GetItemDTO.SellingPrice (GetItemDTO_of i) = Item.SellingPrice i"
  "GetItemDTO.PurchasePrice (GetItemDTO_of i) = Item.PurchasePrice i"
  "GetItemDTO.ItemState (GetItemDTO_of i) = Item.ItemState i"
  "GetItemDTO.ItemTypeID (GetItemDTO_of i) = Item.ItemTypeID i"
  "GetItemDTO.AdditionalExpenses (GetItemDTO_of i)
     = map AdditionalExpense.ID (Item.AdditionalExpenses i)"
  by (simp_all add: GetItemDTO_of_def)

lemma GetItemByID_ok:
  "audit_ok (Log ic) c (''Fetching item by ID: '' @ Param c ''id'') w
   \<Longrightarrow> fst (GetItemByID (Service ic) (Param c ''id'')
         (audited (Log ic) c (''Fetching item by ID: '' @ Param c ''id'') w))
       = (Some i, None)
   \<Longrightarrow> written (ItemController_GetItemByID ic c (init w)) = [(StatusOK, Object (GetItemDTO_of i))]"
  by (simp add: ItemController_GetItemByID_def handler_simps)

lemma GetAllItems_ok:
  "audit_ok (Log ic) c ''Fetching all items'' w
   \<Longrightarrow> fst (GetAllItems (Service ic) (audited (Log ic) c ''Fetching all items'' w))
       = (items, None)
   \<Longrightarrow> written (ItemController_GetAllItems ic c (init w))
       = [(StatusOK, Array (map GetItemDTO_of items))]"
  by (simp add: ItemController_GetAllItems_def handler_simps)

text \<open>
  C9.  \<open>GetItemByID\<close> and \<open>GetAllItems\<close> perform no permission check: whatever two
  authorization utilities decide, the same request ends in the same state with the same
  response, no \<open>CheckPermission\<close> call is made, and once the attempt log succeeds the
  item data is the response: a 200 whose DTO carries the id, name, description, stock,
  selling price, purchase price, state and type of the item that the service returned
  and the ids of its additional expenses, for each item of the list in turn.
\<close>

theorem C9_items_ignore_permissions:
  "ItemController_GetItemByID (ic\<lparr>Auth := some\<rparr>) c s
     = ItemController_GetItemByID (ic\<lparr>Auth := other\<rparr>) c s
   \<and> ItemController_GetAllItems (ic\<lparr>Auth := some\<rparr>) c s
       = ItemController_GetAllItems (ic\<lparr>Auth := other\<rparr>) c s
   \<and> \<not> list_ex is_check (calls (ItemController_GetItemByID ic c (init w)))
   \<and> \<not> list_ex is_check (calls (ItemController_GetAllItems ic c (init w)))
   \<and> (audit_ok (Log ic) c (''Fetching item by ID: '' @ Param c ''id'') w
        \<and> fst (GetItemByID (Service ic) (Param c ''id'')
              (audited (Log ic) c (''Fetching item by ID: '' @ Param c ''id'') w))
            = (Some i, None)
      \<longrightarrow> (\<exists>d. written (ItemController_GetItemByID ic c (init w)) = [(StatusOK, Object d)]
             \<and> GetItemDTO.ID d = Item.ID i
             \<and> GetItemDTO.Name d = Item.Name i
             \<and> GetItemDTO.Description d = Item.Description i
             \<and> GetItemDTO.Stock d = Item.Stock i
             \<and> GetItemDTO.SellingPrice d = Item.SellingPrice i
             \<and> GetItemDTO.PurchasePrice d = Item.PurchasePrice i
             \<and> GetItemDTO.ItemState d = Item.ItemState i
             \<and> GetItemDTO.ItemTypeID d = Item.ItemTypeID i
             \<and> GetItemDTO.AdditionalExpenses d
                 = map AdditionalExpense.ID (Item.AdditionalExpenses i)))
   \<and> (audit_ok (Log ic) c ''Fetching all items'' w
        \<and> fst (GetAllItems (Service ic) (audited (Log ic) c ''Fetching all items'' w))
            = (items, None)
      \<longrightarrow> (\<exists>ds. written (ItemController_GetAllItems ic c (init w)) = [(StatusOK, Array ds)]
             \<and> map GetItemDTO.ID ds = map Item.ID items
             \<and> map GetItemDTO.Name ds = map Item.Name items
             \<and> map GetItemDTO.Description ds = map Item.Description items
             \<and> map GetItemDTO.Stock ds = map Item.Stock items
             \<and> map GetItemDTO.SellingPrice ds = map Item.SellingPrice items
             \<and> map GetItemDTO.PurchasePrice ds = map Item.PurchasePrice items
             \<and> map GetItemDTO.ItemState ds = map Item.ItemState items
             \<and> map GetItemDTO.ItemTypeID ds = map Item.ItemTypeID items
             \<and> map GetItemDTO.AdditionalExpenses ds
                 = map (\<lambda>item. map AdditionalExpense.ID (Item.AdditionalExpenses item)) items))"
proof (intro conjI impI)
  show "ItemController_GetItemByID (ic\<lparr>Auth := some\<rparr>) c s
          = ItemController_GetItemByID (ic\<lparr>Auth := other\<rparr>) c s"
    by (simp add: ItemController_GetItemByID_def handler_simps split: option.splits)
  show "ItemController_GetAllItems (ic\<lparr>Auth := some\<rparr>) c s
          = ItemController_GetAllItems (ic\<lparr>Auth := other\<rparr>) c s"
    by (simp add: ItemController_GetAllItems_def handler_simps split: option.splits)
  show "\<not> list_ex is_check (calls (ItemController_GetItemByID ic c (init w)))"
    by (simp add: ItemController_GetItemByID_def handler_simps split: option.splits)
  show "\<not> list_ex is_check (calls (ItemController_GetAllItems ic c (init w)))"
    by (simp add: ItemController_GetAllItems_def handler_simps split: option.splits)
qed (simp_all add: GetItemByID_ok GetAllItems_ok GetItemDTO_of_fields comp_def)

text \<open>The theorem at a concrete request.\<close>

theorem C9_items_ignore_permissions_witness:
  "(\<exists>d. written (ItemController_GetItemByID
        \<lparr>Service = ItemService_answering [tyre] None, Auth = deny_all, Log = memory_Log\<rparr>
        (request_7 (Inr ())) (init no_users)) = [(StatusOK, Object d)]
      \<and> GetItemDTO.ID d = 3
      \<and> GetItemDTO.Name d = ''tyre''
      \<and> GetItemDTO.Description d = ''R15''
      \<and> GetItemDTO.Stock d = 4
      \<and> GetItemDTO.SellingPrice d = 120
      \<and> GetItemDTO.PurchasePrice d = 90
      \<and> GetItemDTO.ItemState d = True
      \<and> GetItemDTO.ItemTypeID d = 1
      \<and> GetItemDTO.AdditionalExpenses d = [5])
   \<and> (\<exists>ds. written (ItemController_GetAllItems
        \<lparr>Service = ItemService_answering [tyre] None, Auth = deny_all, Log = memory_Log\<rparr>
        (request_7 (Inr ())) (init no_users)) = [(StatusOK, Array ds)]
      \<and> map GetItemDTO.ID ds = [3]
      \<and> map GetItemDTO.Name ds = [''tyre'']
      \<and> map GetItemDTO.Description ds = [''R15'']
      \<and> map GetItemDTO.Stock ds = [4]
      \<and> map GetItemDTO.SellingPrice ds = [120]
      \<and> map GetItemDTO.PurchasePrice ds = [90]
      \<and> map GetItemDTO.ItemState ds = [True]
      \<and> map GetItemDTO.ItemTypeID ds = [1]
      \<and> map GetItemDTO.AdditionalExpenses ds = [[5]])
   \<and> ItemController_GetItemByID
      (\<lparr>Service = ItemService_answering [tyre] None, Auth = deny_all, Log = memory_Log\<rparr>
         \<lparr>Auth := deny_all\<rparr>)
      (request_7 (Inr ())) (init no_users)
     = ItemController_GetItemByID
      (\<lparr>Service = ItemService_answering [tyre] None, Auth = deny_all, Log = memory_Log\<rparr>
         \<lparr>Auth := grant_all\<rparr>)
      (request_7 (Inr ())) (init no_users)"
proof -
  note T = C9_items_ignore_permissions
          [where ic = "\<lparr>Service = ItemService_answering [tyre] None, Auth = deny_all,
                         Log = memory_Log\<rparr>"
             and some = deny_all and other = grant_all and c = "request_7 (Inr ())"
             and s = "init no_users" and w = no_users and i = tyre and items = "[tyre]"]
  have one: "audit_ok
       (Log \<lparr>Service = ItemService_answering [tyre] None, Auth = deny_all, Log = memory_Log\<rparr>)
       (request_7 (Inr ())) (''Fetching item by ID: '' @ Param (request_7 (Inr ())) ''id'')
       no_users
     \<and> fst (GetItemByID
          (Service \<lparr>Service = ItemService_answering [tyre] None, Auth = deny_all,
                    Log = memory_Log\<rparr>)
          (Param (request_7 (Inr ())) ''id'')
          (audited
            (Log \<lparr>Service = ItemService_answering [tyre] None, Auth = deny_all,
                  Log = memory_Log\<rparr>)
            (request_7 (Inr ())) (''Fetching item by ID: '' @ Param (request_7 (Inr ())) ''id'')
            no_users))
       = (Some tyre, None)"
    by (simp add: fixture_simps ItemService_answering_def)
  have all: "audit_ok
       (Log \<lparr>Service = ItemService_answering [tyre] None, Auth = deny_all, Log = memory_Log\<rparr>)
       (request_7 (Inr ())) ''Fetching all items'' no_users
     \<and> fst (GetAllItems
          (Service \<lparr>Service = ItemService_answering [tyre] None, Auth = deny_all,
                    Log = memory_Log\<rparr>)
          (audited
            (Log \<lparr>Service = ItemService_answering [tyre] None, Auth = deny_all,
                  Log = memory_Log\<rparr>)
            (request_7 (Inr ())) ''Fetching all items'' no_users))
       = ([tyre], None)"
    by (simp add: fixture_simps ItemService_answering_def)
  note A = T [THEN conjunct2, THEN conjunct2, THEN conjunct2, THEN conjunct2, THEN conjunct1,
              THEN mp, OF one]
  note B = T [THEN conjunct2, THEN conjunct2, THEN conjunct2, THEN conjunct2, THEN conjunct2,
              THEN mp, OF all]
  from A B T [THEN conjunct1] show ?thesis
    by (simp add: tyre_def)
qed

section \<open>C10: the password in the user DTO\<close>

text \<open>The struct literal copies the password.\<close>

lemma GetUserDTO_of_Password: "GetUserDTO.Password (GetUserDTO_of u) = User.Password u"
  by (simp add: GetUserDTO_of_def)

lemma GetUserByID_ok:
  "audit_ok (Log uc) c (''Attempting to retrieve user with ID: '' @ Param c ''id'') w
   \<Longrightarrow> Auth uc c PERMISSION_GET_USER_BY_ID
         (audited (Log uc) c (''Attempting to retrieve user with ID: '' @ Param c ''id'') w)
   \<Longrightarrow> fst (GetUserByID (Service uc) (Param c ''id'')
         (audited (Log uc) c (''Attempting to retrieve user with ID: '' @ Param c ''id'') w))
       = (Some u, None)
   \<Longrightarrow> written (UserController_GetUserByID uc c (init w)) = [(StatusOK, Object (GetUserDTO_of u))]"
  by (simp add: UserController_GetUserByID_def handler_simps)

lemma GetAllUsers_ok:
  "audit_ok (Log uc) c ''Attempting to retrieve all users'' w
   \<Longrightarrow> Auth uc c PERMISSION_GET_ALL_USERS (audited (Log uc) c ''Attempting to retrieve all users'' w)
   \<Longrightarrow> fst (GetAllUsers (Service uc) (audited (Log uc) c ''Attempting to retrieve all users'' w))
       = (users, None)
   \<Longrightarrow> written (UserController_GetAllUsers uc c (init w))
       = [(StatusOK, Array (map GetUserDTO_of users))]"
  by (simp add: UserController_GetAllUsers_def handler_simps)

lemma SearchUsersByID_ok:
  "audit_ok (Log uc) c (''Attempting to search users by ID with query: '' @ Query c ''id'') w
   \<Longrightarrow> Auth uc c PERMISSION_SEARCH_USER_BY_ID
         (audited (Log uc) c (''Attempting to search users by ID with query: '' @ Query c ''id'') w)
   \<Longrightarrow> Query c ''id'' \<noteq> []
   \<Longrightarrow> fst (SearchUsersByID (Service uc) (Query c ''id'')
         (audited (Log uc) c (''Attempting to search users by ID with query: '' @ Query c ''id'') w))
       = (users, None)
   \<Longrightarrow> users \<noteq> []
   \<Longrightarrow> written (UserController_SearchUsersByID uc c (init w))
       = [(StatusOK, Array (map GetUserDTO_of users))]"
  by (simp add: UserController_SearchUsersByID_def handler_simps)

lemma SearchUsersByEmail_ok:
  "audit_ok (Log uc) c (''Attempting to search users by email with query: '' @ Query c ''email'') w
   \<Longrightarrow> Auth uc c PERMISSION_SEARCH_USERS_BY_EMAIL
         (audited (Log uc) c
            (''Attempting to search users by email with query: '' @ Query c ''email'') w)
   \<Longrightarrow> Query c ''email'' \<noteq> []
   \<Longrightarrow> fst (SearchUsersByEmail (Service uc) (Query c ''email'')
         (audited (Log uc) c
            (''Attempting to search users by email with query: '' @ Query c ''email'') w))
       = (users, None)
   \<Longrightarrow> users \<noteq> []
   \<Longrightarrow> written (UserController_SearchUsersByEmail uc c (init w))
       = [(StatusOK, Array (map GetUserDTO_of users))]"
  by (simp add: UserController_SearchUsersByEmail_def handler_simps)

lemma UpdateUserState_ok:
  "audit_ok (Log ucs) cs (''Attempting to update user state for ID: '' @ Param cs ''id'') w
   \<Longrightarrow> Auth ucs cs PERMISSION_UPDATE_USER_STATE
         (audited (Log ucs) cs (''Attempting to update user state for ID: '' @ Param cs ''id'') w)
   \<Longrightarrow> ShouldBindJSON cs = Inr req
   \<Longrightarrow> fst (UpdateUserState (Service ucs) (Param cs ''id'') (UserState req)
         (audited (Log ucs) cs (''Attempting to update user state for ID: '' @ Param cs ''id'') w))
       = (Some u, None)
   \<Longrightarrow> written (UserController_UpdateUserState ucs cs (init w))
       = [(StatusOK, Object (GetUserDTO_of u))]"
  by (simp add: UserController_UpdateUserState_def handler_simps)

lemma UpdateUser_ok:
  "audit_ok (Log ucu) cu (''Attempting to update user with ID: '' @ Param cu ''id'') w
   \<Longrightarrow> Auth ucu cu PERMISSION_UPDATE_USER
         (audited (Log ucu) cu (''Attempting to update user with ID: '' @ Param cu ''id'') w)
   \<Longrightarrow> ShouldBindJSON cu = Inr dto
   \<Longrightarrow> GetUserByID (Service ucu) (Param cu ''id'')
         (audited (Log ucu) cu (''Attempting to update user with ID: '' @ Param cu ''id'') w)
       = ((Some u, None), w2)
   \<Longrightarrow> fst (UpdateUser (Service ucu)
              (u\<lparr>User.Email := UpdateUserDTO.Email dto,
                 User.Password := UpdateUserDTO.Password dto,
                 User.UserTypeID := UpdateUserDTO.UserTypeID dto,
                 User.UserStateTypeID := UpdateUserDTO.UserStateID dto\<rparr>) w2)
       = (u2, None)
   \<Longrightarrow> written (UserController_UpdateUser ucu cu (init w))
       = [(StatusOK, Object (GetUserDTO_of u2))]"
  by (simp add: UserController_UpdateUser_def handler_simps)

lemma CreateUser_ok:
  "audit_ok (Log ucc) cc ''Attempting to create new user'' w
   \<Longrightarrow> Auth ucc cc PERMISSION_CREATE_USER (audited (Log ucc) cc ''Attempting to create new user'' w)
   \<Longrightarrow> ShouldBindJSON cc = Inr new
   \<Longrightarrow> GetUserByEmail (Service ucc) (CreateUserDTO.Email new)
         (audited (Log ucc) cc ''Attempting to create new user'' w)
       = ((None, lookupErr), w2)
   \<Longrightarrow> fst (CreateUser (Service ucc)
              \<lparr>User.ID = 0,
               User.Email = CreateUserDTO.Email new,
               User.Password = CreateUserDTO.Password new,
               User.UserTypeID = CreateUserDTO.UserTypeID new,
               User.UserStateTypeID = CreateUserDTO.UserStateID new\<rparr> w2)
       = (Some created, None)
   \<Longrightarrow> written (UserController_CreateUser ucc cc (init w))
       = [(StatusCreated, Object (GetUserDTO_of created))]"
  by (simp add: UserController_CreateUser_def handler_simps)

text \<open>
  C10.  Every successful \<open>UserController\<close> operation that returns user data
  (\<open>GetUserByID\<close>, \<open>GetAllUsers\<close>, \<open>SearchUsersByID\<close>, \<open>SearchUsersByEmail\<close>,
  \<open>UpdateUserState\<close>, \<open>UpdateUser\<close>, \<open>CreateUser\<close>) answers with a DTO, or a list
  of DTOs, whose \<open>Password\<close> is the \<open>Password\<close> field of the user that the service
  returned, unchanged.
\<close>

theorem C10_password_in_response:
  "(audit_ok (Log uc) c (''Attempting to retrieve user with ID: '' @ Param c ''id'') w
    \<and> Auth uc c PERMISSION_GET_USER_BY_ID
         (audited (Log uc) c (''Attempting to retrieve user with ID: '' @ Param c ''id'') w)
    \<and> fst (GetUserByID (Service uc) (Param c ''id'')
         (audited (Log uc) c (''Attempting to retrieve user with ID: '' @ Param c ''id'') w))
       = (Some u, None)
    \<longrightarrow> (\<exists>d. written (UserController_GetUserByID uc c (init w)) = [(StatusOK, Object d)]
             \<and> GetUserDTO.Password d = User.Password u))
   \<and> (audit_ok (Log uc) c ''Attempting to retrieve all users'' w
    \<and> Auth uc c PERMISSION_GET_ALL_USERS (audited (Log uc) c ''Attempting to retrieve all users'' w)
    \<and> fst (GetAllUsers (Service uc) (audited (Log uc) c ''Attempting to retrieve all users'' w))
       = (users, None)
    \<longrightarrow> (\<exists>ds. written (UserController_GetAllUsers uc c (init w)) = [(StatusOK, Array ds)]
             \<and> map GetUserDTO.Password ds = map User.Password users))
   \<and> (audit_ok (Log uc) c (''Attempting to search users by ID with query: '' @ Query c ''id'') w
    \<and> Auth uc c PERMISSION_SEARCH_USER_BY_ID
         (audited (Log uc) c (''Attempting to search users by ID with query: '' @ Query c ''id'') w)
    \<and> Query c ''id'' \<noteq> []
    \<and> fst (SearchUsersByID (Service uc) (Query c ''id'')
         (audited (Log uc) c (''Attempting to search users by ID with query: '' @ Query c ''id'') w))
       = (found, None)
    \<and> found \<noteq> []
    \<longrightarrow> (\<exists>ds. written (UserController_SearchUsersByID uc c (init w)) = [(StatusOK, Array ds)]
             \<and> map GetUserDTO.Password ds = map User.Password found))
   \<and> (audit_ok (Log uc) c
         (''Attempting to search users by email with query: '' @ Query c ''email'') w
    \<and> Auth uc c PERMISSION_SEARCH_USERS_BY_EMAIL
         (audited (Log uc) c
            (''Attempting to search users by email with query: '' @ Query c ''email'') w)
    \<and> Query c ''email'' \<noteq> []
    \<and> fst (SearchUsersByEmail (Service uc) (Query c ''email'')
         (audited (Log uc) c
            (''Attempting to search users by email with query: '' @ Query c ''email'') w))
       = (matching, None)
    \<and> matching \<noteq> []
    \<longrightarrow> (\<exists>ds. written (UserController_SearchUsersByEmail uc c (init w)) = [(StatusOK, Array ds)]
             \<and> map GetUserDTO.Password ds = map User.Password matching))
   \<and> (audit_ok (Log ucs) cs (''Attempting to update user state for ID: '' @ Param cs ''id'') w
    \<and> Auth ucs cs PERMISSION_UPDATE_USER_STATE
         (audited (Log ucs) cs (''Attempting to update user state for ID: '' @ Param cs ''id'') w)
    \<and> ShouldBindJSON cs = Inr req
    \<and> fst (UpdateUserState (Service ucs) (Param cs ''id'') (UserState req)
         (audited (Log ucs) cs (''Attempting to update user state for ID: '' @ Param cs ''id'') w))
       = (Some switched, None)
    \<longrightarrow> (\<exists>d. written (UserController_UpdateUserState ucs cs (init w)) = [(StatusOK, Object d)]
             \<and> GetUserDTO.Password d = User.Password switched))
   \<and> (audit_ok (Log ucu) cu (''Attempting to update user with ID: '' @ Param cu ''id'') w
    \<and> Auth ucu cu PERMISSION_UPDATE_USER
         (audited (Log ucu) cu (''Attempting to update user with ID: '' @ Param cu ''id'') w)
    \<and> ShouldBindJSON cu = Inr dto
    \<and> GetUserByID (Service ucu) (Param cu ''id'')
         (audited (Log ucu) cu (''Attempting to update user with ID: '' @ Param cu ''id'') w)
       = ((Some old, None), w2)
    \<and> fst (UpdateUser (Service ucu)
              (old\<lparr>User.Email := UpdateUserDTO.Email dto,
                   User.Password := UpdateUserDTO.Password dto,
                   User.UserTypeID := UpdateUserDTO.UserTypeID dto,
                   User.UserStateTypeID := UpdateUserDTO.UserStateID dto\<rparr>) w2)
       = (saved, None)
    \<longrightarrow> (\<exists>d. written (UserController_UpdateUser ucu cu (init w)) = [(StatusOK, Object d)]
             \<and> GetUserDTO.Password d = User.Password saved))
   \<and> (audit_ok (Log ucc) cc ''Attempting to create new user'' w
    \<and> Auth ucc cc PERMISSION_CREATE_USER (audited (Log ucc) cc ''Attempting to create new user'' w)
    \<and> ShouldBindJSON cc = Inr new
    \<and> GetUserByEmail (Service ucc) (CreateUserDTO.Email new)
         (audited (Log ucc) cc ''Attempting to create new user'' w)
       = ((None, lookupErr), w3)
    \<and> fst (CreateUser (Service ucc)
              \<lparr>User.ID = 0,
               User.Email = CreateUserDTO.Email new,
               User.Password = CreateUserDTO.Password new,
               User.UserTypeID = CreateUserDTO.UserTypeID new,
               User.UserStateTypeID = CreateUserDTO.UserStateID new\<rparr> w3)
       = (Some created, None)
    \<longrightarrow> (\<exists>d. written (UserController_CreateUser ucc cc (init w)) = [(StatusCreated, Object d)]
             \<and> GetUserDTO.Password d = User.Password created))"
proof (intro conjI impI)
qed (simp_all add: GetUserByID_ok GetAllUsers_ok SearchUsersByID_ok SearchUsersByEmail_ok
      UpdateUserState_ok UpdateUser_ok CreateUser_ok GetUserDTO_of_Password comp_def)

text \<open>The theorem at a concrete request.\<close>

theorem C10_password_in_response_witness:
  "(\<exists>d. written (UserController_GetUserByID (UserController_memory grant_all memory_Log)
      (request_7 (Inr ())) (init one_user)) = [(StatusOK, Object d)]
      \<and> GetUserDTO.Password d = User.Password ana)
   \<and> (\<exists>ds. written (UserController_GetAllUsers (UserController_memory grant_all memory_Log)
      (request_7 (Inr ())) (init one_user)) = [(StatusOK, Array ds)]
      \<and> map GetUserDTO.Password ds = map User.Password [ana])
   \<and> (\<exists>ds. written (UserController_SearchUsersByID (UserController_memory grant_all memory_Log)
      (request_7 (Inr ())) (init one_user)) = [(StatusOK, Array ds)]
      \<and> map GetUserDTO.Password ds = map User.Password [ana])
   \<and> (\<exists>ds. written (UserController_SearchUsersByEmail (UserController_memory grant_all memory_Log)
      (request_7 (Inr ())) (init one_user)) = [(StatusOK, Array ds)]
      \<and> map GetUserDTO.Password ds = map User.Password [ana])
   \<and> (\<exists>d. written (UserController_UpdateUserState (UserController_memory grant_all memory_Log)
      (request_7 (Inr \<lparr>UserState = 2\<rparr>)) (init one_user)) = [(StatusOK, Object d)]
      \<and> GetUserDTO.Password d = User.Password (ana\<lparr>User.UserStateTypeID := 2\<rparr>))
   \<and> (\<exists>d. written (UserController_UpdateUser (UserController_memory grant_all memory_Log)
      (request_7 (Inr changed_user)) (init one_user)) = [(StatusOK, Object d)]
      \<and> GetUserDTO.Password d
          = User.Password (ana\<lparr>User.Password := ''n3w'', User.UserStateTypeID := 2\<rparr>))
   \<and> (\<exists>d. written (UserController_CreateUser (UserController_memory grant_all memory_Log)
      (request_7 (Inr new_user)) (init one_user)) = [(StatusCreated, Object d)]
      \<and> GetUserDTO.Password d
          = User.Password
              \<lparr>User.ID = 2, User.Email = ''luis@totes.co'', User.Password = ''pw'',
               User.UserTypeID = 2, User.UserStateTypeID = 1\<rparr>)
   \<and> User.Password ana = ''s3cret''"
proof -
  note T = C10_password_in_response
    [of "UserController_memory grant_all memory_Log" "request_7 (Inr ())" one_user ana
        "[ana]" "[ana]" "[ana]"
        "UserController_memory grant_all memory_Log" "request_7 (Inr \<lparr>UserState = 2\<rparr>)"
        "\<lparr>UserState = 2\<rparr>" "ana\<lparr>User.UserStateTypeID := 2\<rparr>"
        "UserController_memory grant_all memory_Log" "request_7 (Inr changed_user)"
        changed_user ana
        "one_user\<lparr>audit_table := [''Attempting to update user with ID: 7'']\<rparr>"
        "ana\<lparr>User.Password := ''n3w'', User.UserStateTypeID := 2\<rparr>"
        "UserController_memory grant_all memory_Log" "request_7 (Inr new_user)"
        new_user "Some ErrRecordNotFound"
        "one_user\<lparr>audit_table := [''Attempting to create new user'']\<rparr>"
        "\<lparr>User.ID = 2, User.Email = ''luis@totes.co'', User.Password = ''pw'',
          User.UserTypeID = 2, User.UserStateTypeID = 1\<rparr>"]
  have 1: "\<exists>d. written (UserController_GetUserByID (UserController_memory grant_all memory_Log)
      (request_7 (Inr ())) (init one_user)) = [(StatusOK, Object d)]
      \<and> GetUserDTO.Password d = User.Password ana"
    by (rule T [THEN conjunct1, THEN mp]) (simp add: fixture_simps)
  have 2: "\<exists>ds. written (UserController_GetAllUsers (UserController_memory grant_all memory_Log)
      (request_7 (Inr ())) (init one_user)) = [(StatusOK, Array ds)]
      \<and> map GetUserDTO.Password ds = map User.Password [ana]"
    by (rule T [THEN conjunct2, THEN conjunct1, THEN mp]) (simp add: fixture_simps)
  have 3: "\<exists>ds. written (UserController_SearchUsersByID (UserController_memory grant_all memory_Log)
      (request_7 (Inr ())) (init one_user)) = [(StatusOK, Array ds)]
      \<and> map GetUserDTO.Password ds = map User.Password [ana]"
    by (rule T [THEN conjunct2, THEN conjunct2, THEN conjunct1, THEN mp])
       (simp add: fixture_simps)
  have 4: "\<exists>ds. written (UserController_SearchUsersByEmail
      (UserController_memory grant_all memory_Log)
      (request_7 (Inr ())) (init one_user)) = [(StatusOK, Array ds)]
      \<and> map GetUserDTO.Password ds = map User.Password [ana]"
    by (rule T [THEN conjunct2, THEN conjunct2, THEN conjunct2, THEN conjunct1, THEN mp])
       (simp add: fixture_simps)
  have 5: "\<exists>d. written (UserController_UpdateUserState (UserController_memory grant_all memory_Log)
      (request_7 (Inr \<lparr>UserState = 2\<rparr>)) (init one_user)) = [(StatusOK, Object d)]
      \<and> GetUserDTO.Password d = User.Password (ana\<lparr>User.UserStateTypeID := 2\<rparr>)"
    by (rule T [THEN conjunct2, THEN conjunct2, THEN conjunct2, THEN conjunct2, THEN conjunct1,
                THEN mp])
       (simp add: fixture_simps)
  have 6: "\<exists>d. written (UserController_UpdateUser (UserController_memory grant_all memory_Log)
      (request_7 (Inr changed_user)) (init one_user)) = [(StatusOK, Object d)]
      \<and> GetUserDTO.Password d
          = User.Password (ana\<lparr>User.Password := ''n3w'', User.UserStateTypeID := 2\<rparr>)"
    by (rule T [THEN conjunct2, THEN conjunct2, THEN conjunct2, THEN conjunct2, THEN conjunct2,
                THEN conjunct1, THEN mp])
       (simp add: fixture_simps)
  have 7: "\<exists>d. written (UserController_CreateUser (UserController_memory grant_all memory_Log)
      (request_7 (Inr new_user)) (init one_user)) = [(StatusCreated, Object d)]
      \<and> GetUserDTO.Password d
          = User.Password
              \<lparr>User.ID = 2, User.Email = ''luis@totes.co'', User.Password = ''pw'',
               User.UserTypeID = 2, User.UserStateTypeID = 1\<rparr>"
    by (rule T [THEN conjunct2, THEN conjunct2, THEN conjunct2, THEN conjunct2, THEN conjunct2,
                THEN conjunct2, THEN mp])
       (simp add: fixture_simps Let_def)
  have 8: "User.Password ana = ''s3cret''"
    by (simp add: ana_def)
  from 1 2 3 4 5 6 7 8 show ?thesis by blast
qed

end
